theory Spec2Isabelle
  imports Complex_Main "HOL-Library.Sublist" "HOL-Library.Multiset"
    "HOL-Library.Code_Target_Nat"
begin

section \<open>JavaScript values\<close>

text \<open>
  The JavaScript \<open>number\<close> type: NaN, the two infinities and the finite doubles. A finite
  double is kept as the rational number it stands for; the signed zero is not part of the
  model.
\<close>

datatype jsnum = NaN | PInf | NInf | Fin rat

subsection \<open>Rounding to binary64\<close>

text \<open>The power of two with an integer exponent.\<close>

definition pow2 :: "int \<Rightarrow> rat" where
  "pow2 k = (if 0 \<le> k then 2 ^ nat k else 1 / 2 ^ nat (- k))"

text \<open>The number of binary digits of a natural number.\<close>

fun bits :: "nat \<Rightarrow> nat" where
  "bits n = (if n = 0 then 0 else Suc (bits (n div 2)))"

text \<open>For a positive \<open>x\<close>, the exponent \<open>k\<close> with \<open>2 ^ k \<le> x < 2 ^ (k + 1)\<close>.\<close>

definition ilog2 :: "rat \<Rightarrow> int" where
  "ilog2 x =
     (if 1 \<le> x then int (bits (nat \<lfloor>x\<rfloor>)) - 1
      else - int (bits (nat (\<lceil>1 / x\<rceil> - 1))))"

text \<open>The nearest integer, a tie going to the even one.\<close>

definition round_even :: "rat \<Rightarrow> int" where
  "round_even t =
     (let f = \<lfloor>t\<rfloor>; r = t - of_int f
      in if r < 1 / 2 then f
         else if 1 / 2 < r then f + 1
         else if even f then f else f + 1)"

text \<open>
  The double nearest to a rational number, as every arithmetic operation of the language
  delivers its result: a significand of 53 binary digits, the least exponent that of the
  subnormal numbers, a tie going to the even significand, and an infinity from
  \<open>2 ^ 1024\<close> on.
\<close>

definition round64 :: "rat \<Rightarrow> jsnum" where
  "round64 x =
     (if x = 0 then Fin 0
      else
        (let a = \<bar>x\<bar>;
             e = max (ilog2 a - 52) (- 1074);
             y = of_int (round_even (a / pow2 e)) * pow2 e
         in if 2 ^ 1024 \<le> y then (if 0 < x then PInf else NInf)
            else Fin (if 0 < x then y else - y)))"

text \<open>The rational numbers that are doubles.\<close>

definition is_double :: "rat \<Rightarrow> bool" where
  "is_double x = (round64 x = Fin x)"

text \<open>
  The primitive values a parsed JSON body or a fetched entry holds. \<open>Undefined\<close> is what
  reading an absent property gives.
\<close>

datatype jsval = Undefined | Null | Bool bool | Num jsnum | Str string

fun num_add :: "jsnum \<Rightarrow> jsnum \<Rightarrow> jsnum" where
  "num_add NaN _ = NaN"
| "num_add _ NaN = NaN"
| "num_add PInf NInf = NaN"
| "num_add NInf PInf = NaN"
| "num_add PInf _ = PInf"
| "num_add _ PInf = PInf"
| "num_add NInf _ = NInf"
| "num_add _ NInf = NInf"
| "num_add (Fin a) (Fin b) = round64 (a + b)"

fun num_neg :: "jsnum \<Rightarrow> jsnum" where
  "num_neg NaN = NaN"
| "num_neg PInf = NInf"
| "num_neg NInf = PInf"
| "num_neg (Fin a) = Fin (- a)"

definition num_sub :: "jsnum \<Rightarrow> jsnum \<Rightarrow> jsnum" where
  "num_sub a b = num_add a (num_neg b)"

text \<open>ToBoolean: what \<open>!v\<close>, \<open>v || w\<close> and \<open>if (v)\<close> test.\<close>

fun truthy :: "jsval \<Rightarrow> bool" where
  "truthy Undefined = False"
| "truthy Null = False"
| "truthy (Bool b) = b"
| "truthy (Num NaN) = False"
| "truthy (Num (Fin r)) = (r \<noteq> 0)"
| "truthy (Num _) = True"
| "truthy (Str s) = (s \<noteq> [])"

definition js_or :: "jsval \<Rightarrow> jsval \<Rightarrow> jsval" where
  "js_or v w = (if truthy v then v else w)"

subsection \<open>StringToNumber\<close>

text \<open>
  \<open>Number(s)\<close> on a string, after the grammar of ECMAScript's StringToNumber, for ASCII
  text: surrounding white space is dropped, the empty string is 0, then a signed decimal
  literal (digits, a fraction, an exponent, or \<open>Infinity\<close>) or an unsigned binary, octal
  or hexadecimal integer literal; anything else is NaN. The value of the literal is rounded
  to a double.
\<close>

definition is_ws :: "char \<Rightarrow> bool" where
  "is_ws c = (of_char c \<in> {9::nat, 10, 11, 12, 13, 32})"

definition trim :: "string \<Rightarrow> string" where
  "trim s = rev (dropWhile is_ws (rev (dropWhile is_ws s)))"

definition digit_of :: "nat \<Rightarrow> char \<Rightarrow> nat option" where
  "digit_of base c =
     (let n = (of_char c :: nat);
          d = (if 48 \<le> n \<and> n \<le> 57 then Some (n - 48)
               else if 97 \<le> n \<and> n \<le> 102 then Some (n - 87)
               else if 65 \<le> n \<and> n \<le> 70 then Some (n - 55)
               else None)
      in case d of None \<Rightarrow> None | Some k \<Rightarrow> if k < base then Some k else None)"

fun digits_acc :: "nat \<Rightarrow> nat \<Rightarrow> string \<Rightarrow> nat option" where
  "digits_acc base acc [] = Some acc"
| "digits_acc base acc (c # cs) =
     (case digit_of base c of
        None \<Rightarrow> None
      | Some d \<Rightarrow> digits_acc base (acc * base + d) cs)"

text \<open>One or more digits of the base: their value.\<close>

definition digits :: "nat \<Rightarrow> string \<Rightarrow> nat option" where
  "digits base s = (if s = [] then None else digits_acc base 0 s)"

text \<open>SignedInteger of an exponent part.\<close>

definition signed_integer :: "string \<Rightarrow> int option" where
  "signed_integer s =
     (case s of
        [] \<Rightarrow> None
      | c # cs \<Rightarrow>
          if c = CHR ''+'' then map_option int (digits 10 cs)
          else if c = CHR ''-'' then map_option (\<lambda>n. - int n) (digits 10 cs)
          else map_option int (digits 10 s))"

text \<open>The mantissa: \<open>ddd\<close>, \<open>ddd.\<close>, \<open>ddd.ddd\<close> or \<open>.ddd\<close>.\<close>

definition mantissa :: "string \<Rightarrow> rat option" where
  "mantissa s =
     (let ip = takeWhile (\<lambda>c. c \<noteq> CHR ''.'') s;
          rest = dropWhile (\<lambda>c. c \<noteq> CHR ''.'') s
      in if rest = [] then map_option of_nat (digits 10 ip)
         else
           (let fp = tl rest
            in if ip = [] then map_option (\<lambda>f. of_nat f / 10 ^ length fp) (digits 10 fp)
               else if fp = [] then map_option of_nat (digits 10 ip)
               else (case (digits 10 ip, digits 10 fp) of
                       (Some i, Some f) \<Rightarrow> Some (of_nat i + of_nat f / 10 ^ length fp)
                     | _ \<Rightarrow> None)))"

definition is_exp_char :: "char \<Rightarrow> bool" where
  "is_exp_char c = (c = CHR ''e'' \<or> c = CHR ''E'')"

definition scale10 :: "rat \<Rightarrow> int \<Rightarrow> rat" where
  "scale10 m e = (if 0 \<le> e then m * 10 ^ nat e else m / 10 ^ nat (- e))"

definition unsigned_decimal :: "string \<Rightarrow> jsnum" where
  "unsigned_decimal s =
     (if s = ''Infinity'' then PInf
      else
        (let m = takeWhile (\<lambda>c. \<not> is_exp_char c) s;
             ex = dropWhile (\<lambda>c. \<not> is_exp_char c) s
         in case mantissa m of
              None \<Rightarrow> NaN
            | Some v \<Rightarrow>
                if ex = [] then round64 v
                else (case signed_integer (tl ex) of
                        None \<Rightarrow> NaN
                      | Some e \<Rightarrow> round64 (scale10 v e))))"

definition radix_prefix :: "string \<Rightarrow> nat option" where
  "radix_prefix s =
     (case s of
        c # d # _ \<Rightarrow>
          if c \<noteq> CHR ''0'' then None
          else if d = CHR ''x'' \<or> d = CHR ''X'' then Some 16
          else if d = CHR ''o'' \<or> d = CHR ''O'' then Some 8
          else if d = CHR ''b'' \<or> d = CHR ''B'' then Some 2
          else None
      | _ \<Rightarrow> None)"

definition string_to_number :: "string \<Rightarrow> jsnum" where
  "string_to_number s =
     (let t = trim s
      in if t = [] then Fin 0
         else
           (case radix_prefix t of
              Some base \<Rightarrow>
                (case digits base (drop 2 t) of None \<Rightarrow> NaN | Some n \<Rightarrow> round64 (of_nat n))
            | None \<Rightarrow>
                if hd t = CHR ''+'' then unsigned_decimal (tl t)
                else if hd t = CHR ''-'' then num_neg (unsigned_decimal (tl t))
                else unsigned_decimal t))"

text \<open>ToNumber on a primitive: what \<open>Number(v)\<close> and the operands of \<open>-\<close> go through.\<close>

fun to_number :: "jsval \<Rightarrow> jsnum" where
  "to_number Undefined = NaN"
| "to_number Null = Fin 0"
| "to_number (Bool b) = (if b then Fin 1 else Fin 0)"
| "to_number (Num n) = n"
| "to_number (Str s) = string_to_number s"

text \<open>The source's \<open>Number(v) || 0\<close>.\<close>

definition number_or_zero :: "jsval \<Rightarrow> jsnum" where
  "number_or_zero v = (if truthy (Num (to_number v)) then to_number v else Fin 0)"

section \<open>The entry store\<close>

text \<open>
  A stored value is a primitive or a date (\<open>new Date()\<close>, as milliseconds). A document is
  its fields. An ObjectId is written as its 24 hexadecimal digits in lower case, which is
  also what \<open>toString()\<close> gives. A stored entry is a document with the \<open>_id\<close> that
  \<open>insertOne\<close> gave it, kept apart from the other fields; the collection is the list of
  stored entries. The collection is always reachable: \<open>getDatabase\<close> and the driver
  calls do not throw in the model.
\<close>

datatype bson = Prim jsval | DateV nat

type_synonym document = "string \<rightharpoonup> bson"

type_synonym objectid = string

record stored =
  oid :: objectid
  entry_doc :: document

text \<open>Reading a property: \<open>entry.credit\<close>.\<close>

definition field :: "document \<Rightarrow> string \<Rightarrow> bson" where
  "field d k = (case d k of None \<Rightarrow> Prim Undefined | Some v \<Rightarrow> v)"

text \<open>
  The driver writes an undefined property as null (\<open>ignoreUndefined\<close> is off by default).
\<close>

fun bson_value :: "bson \<Rightarrow> bson" where
  "bson_value (Prim Undefined) = Prim Null"
| "bson_value v = v"

definition serialize :: "document \<Rightarrow> document" where
  "serialize d = (\<lambda>k. map_option bson_value (d k))"

text \<open>
  \<open>new ObjectId(id)\<close> on the string of the route: 24 hexadecimal digits, in either case,
  name an ObjectId; on anything else the constructor throws (\<open>None\<close>).
\<close>

definition lower_char :: "char \<Rightarrow> char" where
  "lower_char c =
     (case map_of (zip ''ABCDEFGHIJKLMNOPQRSTUVWXYZ'' ''abcdefghijklmnopqrstuvwxyz'') c of
        None \<Rightarrow> c
      | Some l \<Rightarrow> l)"

definition ObjectId :: "string \<Rightarrow> objectid option" where
  "ObjectId s =
     (if length s = 24 \<and> list_all (\<lambda>c. digit_of 16 c \<noteq> None) s
      then Some (map lower_char s) else None)"

text \<open>\<open>updateOne({ _id }, { $set: updateData })\<close>: the matched count and the collection.\<close>

fun updateOne :: "objectid \<Rightarrow> document \<Rightarrow> stored list \<Rightarrow> nat \<times> stored list" where
  "updateOne i upd [] = (0, [])"
| "updateOne i upd (e # es) =
     (if oid e = i then (1, e\<lparr>entry_doc := entry_doc e ++ serialize upd\<rparr> # es)
      else (case updateOne i upd es of (n, es') \<Rightarrow> (n, e # es')))"

text \<open>\<open>deleteOne({ _id })\<close>: the deleted count and the collection.\<close>

fun deleteOne :: "objectid \<Rightarrow> stored list \<Rightarrow> nat \<times> stored list" where
  "deleteOne i [] = (0, [])"
| "deleteOne i (e # es) =
     (if oid e = i then (1, es)
      else (case deleteOne i es of (n, es') \<Rightarrow> (n, e # es')))"

datatype payload =
    Entries "document list"
  | Entry document
  | Message string
  | Error string

record response =
  status :: nat
  body :: payload

section \<open>GET: the running balance\<close>

text \<open>
  \<open>runningBalance + entry.credit\<close>. With a credit that is undefined, null, a boolean or a
  number the operator adds numbers. With a string or a date it concatenates strings: the
  rendering of the number, then the string or the rendering of the date. The decimal
  rendering of a double and the rendering of a date in the time zone are not modelled:
  \<open>num_str\<close> and \<open>date_str\<close> are parameters.
\<close>

fun js_plus :: "(jsnum \<Rightarrow> string) \<Rightarrow> (nat \<Rightarrow> string) \<Rightarrow> jsnum \<Rightarrow> bson \<Rightarrow> jsval" where
  "js_plus num_str date_str rb (Prim (Str s)) = Str (num_str rb @ s)"
| "js_plus num_str date_str rb (DateV t) = Str (num_str rb @ date_str t)"
| "js_plus num_str date_str rb (Prim v) = Num (num_add rb (to_number v))"

text \<open>\<open>x - entry.debit\<close>: both operands go through ToNumber.\<close>

fun bson_to_number :: "bson \<Rightarrow> jsnum" where
  "bson_to_number (Prim v) = to_number v"
| "bson_to_number (DateV t) = Fin (of_nat t)"

definition js_minus :: "jsval \<Rightarrow> bson \<Rightarrow> jsnum" where
  "js_minus x w = num_sub (to_number x) (bson_to_number w)"

text \<open>
  The object one step of the \<open>map\<close> callback returns:
  \<open>{ ...entry, id: entry._id.toString(), balance: runningBalance, _id: undefined }\<close>.
\<close>

definition processed :: "stored \<Rightarrow> jsnum \<Rightarrow> document" where
  "processed entry rb =
     (entry_doc entry)
       (''id'' \<mapsto> Prim (Str (oid entry)),
        ''balance'' \<mapsto> Prim (Num rb),
        ''_id'' \<mapsto> Prim Undefined)"

text \<open>
  The \<open>map\<close> over the array that \<open>find({}).sort({ date: 1 }).toArray()\<close> returned, with
  \<open>runningBalance\<close> as the accumulator.
\<close>

fun processedEntries ::
  "(jsnum \<Rightarrow> string) \<Rightarrow> (nat \<Rightarrow> string) \<Rightarrow> jsnum \<Rightarrow> stored list \<Rightarrow> document list" where
  "processedEntries num_str date_str runningBalance [] = []"
| "processedEntries num_str date_str runningBalance (entry # rest) =
     (let rb = js_minus (js_plus num_str date_str runningBalance (field (entry_doc entry) ''credit''))
                 (field (entry_doc entry) ''debit'')
      in processed entry rb # processedEntries num_str date_str rb rest)"

definition GET :: "(jsnum \<Rightarrow> string) \<Rightarrow> (nat \<Rightarrow> string) \<Rightarrow> stored list \<Rightarrow> response" where
  "GET num_str date_str found =
     \<lparr>status = 200, body = Entries (processedEntries num_str date_str (Fin 0) found)\<rparr>"

text \<open>The balances of a response, in order.\<close>

definition balances :: "response \<Rightarrow> bson list" where
  "balances r = (case body r of Entries out \<Rightarrow> map (\<lambda>d. field d ''balance'') out | _ \<Rightarrow> [])"

text \<open>The finite amount a field holds; 0 where it holds none.\<close>

definition amount :: "stored \<Rightarrow> string \<Rightarrow> rat" where
  "amount e k = (case field (entry_doc e) k of Prim (Num (Fin r)) \<Rightarrow> r | _ \<Rightarrow> 0)"

text \<open>The field holds a finite double.\<close>

definition has_amount :: "stored \<Rightarrow> string \<Rightarrow> bool" where
  "has_amount e k =
     (case field (entry_doc e) k of Prim (Num (Fin r)) \<Rightarrow> is_double r | _ \<Rightarrow> False)"

text \<open>What an entry adds to the balance: credit less debit.\<close>

definition net :: "stored \<Rightarrow> rat" where
  "net e = amount e ''credit'' - amount e ''debit''"

text \<open>The values on which \<open>+\<close> adds numbers.\<close>

fun adds :: "bson \<Rightarrow> bool" where
  "adds (Prim (Str s)) = False"
| "adds (DateV t) = False"
| "adds (Prim v) = True"

section \<open>POST, PUT and DELETE\<close>

text \<open>
  The parsed body is a JSON object whose members are primitives; destructuring gives
  \<open>undefined\<close> for a member that is absent.
\<close>

type_synonym request_body = "string \<rightharpoonup> jsval"

definition member :: "request_body \<Rightarrow> string \<Rightarrow> jsval" where
  "member b k = (case b k of None \<Rightarrow> Undefined | Some v \<Rightarrow> v)"

definition newEntry :: "nat \<Rightarrow> nat \<Rightarrow> request_body \<Rightarrow> document" where
  "newEntry created updated b =
     [''date'' \<mapsto> Prim (member b ''date''),
      ''particulars'' \<mapsto> Prim (member b ''particulars''),
      ''debitCountry'' \<mapsto> Prim (Num (number_or_zero (member b ''debitCountry''))),
      ''debit'' \<mapsto> Prim (Num (number_or_zero (member b ''debit''))),
      ''creditCountry'' \<mapsto> Prim (Num (number_or_zero (member b ''creditCountry''))),
      ''credit'' \<mapsto> Prim (Num (number_or_zero (member b ''credit''))),
      ''createdAt'' \<mapsto> DateV created,
      ''updatedAt'' \<mapsto> DateV updated]"

text \<open>
  \<open>insertedId\<close> is the ObjectId the driver makes for the new document; \<open>created\<close> and
  \<open>updated\<close> are the two readings of the clock.
\<close>

definition POST ::
  "objectid \<Rightarrow> nat \<Rightarrow> nat \<Rightarrow> request_body \<Rightarrow> stored list \<Rightarrow> response \<times> stored list" where
  "POST insertedId created updated b db =
     (if \<not> truthy (member b ''particulars'')
         \<or> (\<not> truthy (member b ''debit'') \<and> \<not> truthy (member b ''credit''))
      then (\<lparr>status = 400, body = Error ''Missing required fields''\<rparr>, db)
      else
        (let new = newEntry created updated b
         in (\<lparr>status = 201,
              body = Entry (new(''id'' \<mapsto> Prim (Str insertedId), ''_id'' \<mapsto> Prim Undefined))\<rparr>,
             db @ [\<lparr>oid = insertedId, entry_doc = serialize new\<rparr>])))"

definition updateData :: "nat \<Rightarrow> request_body \<Rightarrow> document" where
  "updateData updated b =
     [''date'' \<mapsto> Prim (member b ''date''),
      ''particulars'' \<mapsto> Prim (member b ''particulars''),
      ''debitCountry'' \<mapsto> Prim (Num (number_or_zero (member b ''debitCountry''))),
      ''debit'' \<mapsto> Prim (Num (number_or_zero (member b ''debit''))),
      ''creditCountry'' \<mapsto> Prim (Num (number_or_zero (member b ''creditCountry''))),
      ''credit'' \<mapsto> Prim (Num (number_or_zero (member b ''credit''))),
      ''updatedAt'' \<mapsto> DateV updated]"

definition PUT ::
  "string \<Rightarrow> nat \<Rightarrow> request_body \<Rightarrow> stored list \<Rightarrow> response \<times> stored list" where
  "PUT ident updated b db =
     (if \<not> truthy (member b ''particulars'')
         \<or> (\<not> truthy (member b ''debit'') \<and> \<not> truthy (member b ''credit''))
      then (\<lparr>status = 400, body = Error ''Missing required fields''\<rparr>, db)
      else
        (case ObjectId ident of
           None \<Rightarrow> (\<lparr>status = 500, body = Error ''Failed to update entry''\<rparr>, db)
         | Some i \<Rightarrow>
             (case updateOne i (updateData updated b) db of
                (matchedCount, db') \<Rightarrow>
                  if matchedCount = 0
                  then (\<lparr>status = 404, body = Error ''Entry not found''\<rparr>, db')
                  else (\<lparr>status = 200, body = Message ''Entry updated successfully''\<rparr>, db'))))"

definition DELETE :: "string \<Rightarrow> stored list \<Rightarrow> response \<times> stored list" where
  "DELETE ident db =
     (case ObjectId ident of
        None \<Rightarrow> (\<lparr>status = 500, body = Error ''Failed to delete entry''\<rparr>, db)
      | Some i \<Rightarrow>
          (case deleteOne i db of
             (deletedCount, db') \<Rightarrow>
               if deletedCount = 0
               then (\<lparr>status = 404, body = Error ''Entry not found''\<rparr>, db')
               else (\<lparr>status = 200, body = Message ''Entry deleted successfully''\<rparr>, db')))"

definition no_balance :: "stored list \<Rightarrow> bool" where
  "no_balance db = list_all (\<lambda>e. entry_doc e ''balance'' = None) db"

section \<open>The statement component\<close>

text \<open>
  An entry as the component holds it (the interface \<open>AccountEntry\<close>). The amounts are
  numbers by the interface; the model lets them be any primitive, so that every falsy
  value is covered. Strings are ASCII: \<open>toLowerCase\<close> maps \<open>A\<close> to \<open>Z\<close> only.
\<close>

record AccountEntry =
  entry_id :: string
  date :: string
  particulars :: string
  debitCountry :: jsval
  debit :: jsval
  creditCountry :: jsval
  credit :: jsval
  balance :: jsval

record filters =
  filter_particulars :: string
  startDate :: string
  endDate :: string

text \<open>The part of the component's state that searching and exporting read and write.\<close>

record component =
  entries :: "AccountEntry list"
  exportFilters :: filters
  filteredEntries :: "AccountEntry list"

definition toLowerCase :: "string \<Rightarrow> string" where
  "toLowerCase s = map lower_char s"

text \<open>\<open>s.includes(q)\<close>: \<open>q\<close> occurs in \<open>s\<close> at some position.\<close>

fun includes_str :: "string \<Rightarrow> string \<Rightarrow> bool" where
  "includes_str [] q = (q = [])"
| "includes_str (c # cs) q = (take (length q) (c # cs) = q \<or> includes_str cs q)"

text \<open>\<open>a < b\<close> on strings: by code units, a proper prefix first.\<close>

fun str_lt :: "string \<Rightarrow> string \<Rightarrow> bool" where
  "str_lt [] [] = False"
| "str_lt [] (y # ys) = True"
| "str_lt (x # xs) [] = False"
| "str_lt (x # xs) (y # ys) =
     (if x = y then str_lt xs ys else (of_char x :: nat) < of_char y)"

definition str_ge :: "string \<Rightarrow> string \<Rightarrow> bool" where
  "str_ge a b = (\<not> str_lt a b)"

definition str_le :: "string \<Rightarrow> string \<Rightarrow> bool" where
  "str_le a b = (\<not> str_lt b a)"

definition handleSearch :: "component \<Rightarrow> component" where
  "handleSearch st =
     (let f = exportFilters st;
          filtered = entries st;
          filtered =
            (if filter_particulars f \<noteq> []
             then filter (\<lambda>entry. includes_str (toLowerCase (particulars entry))
                                     (toLowerCase (filter_particulars f))) filtered
             else filtered);
          filtered =
            (if startDate f \<noteq> []
             then filter (\<lambda>entry. str_ge (date entry) (startDate f)) filtered
             else filtered);
          filtered =
            (if endDate f \<noteq> []
             then filter (\<lambda>entry. str_le (date entry) (endDate f)) filtered
             else filtered)
      in st\<lparr>filteredEntries := filtered\<rparr>)"

subsection \<open>Export\<close>

text \<open>
  ToString. The decimal rendering of a double, the shortest digits that read back as it,
  is not modelled: \<open>num_str\<close>, the rendering of numbers, is a parameter.
\<close>

fun to_string :: "(jsnum \<Rightarrow> string) \<Rightarrow> jsval \<Rightarrow> string" where
  "to_string num_str Undefined = ''undefined''"
| "to_string num_str Null = ''null''"
| "to_string num_str (Bool b) = (if b then ''true'' else ''false'')"
| "to_string num_str (Num n) = num_str n"
| "to_string num_str (Str s) = s"

text \<open>\<open>Array.prototype.join\<close>: undefined and null elements give the empty string.\<close>

fun join_element :: "(jsnum \<Rightarrow> string) \<Rightarrow> jsval \<Rightarrow> string" where
  "join_element num_str Undefined = []"
| "join_element num_str Null = []"
| "join_element num_str v = to_string num_str v"

fun join_strings :: "string \<Rightarrow> string list \<Rightarrow> string" where
  "join_strings sep [] = []"
| "join_strings sep [x] = x"
| "join_strings sep (x # y # ys) = x @ sep @ join_strings sep (y # ys)"

definition join :: "(jsnum \<Rightarrow> string) \<Rightarrow> string \<Rightarrow> jsval list \<Rightarrow> string" where
  "join num_str sep row = join_strings sep (map (join_element num_str) row)"

text \<open>\<open>v || "-"\<close>\<close>

definition or_dash :: "jsval \<Rightarrow> jsval" where
  "or_dash v = js_or v (Str ''-'')"

text \<open>
  Following the specification: the text of an amount is the placeholder when the amount
  is zero or falsy, and its rendering otherwise.
\<close>

definition amount_text :: "(jsnum \<Rightarrow> string) \<Rightarrow> jsval \<Rightarrow> string" where
  "amount_text num_str v = (if truthy v then to_string num_str v else ''-'')"

definition csv_header :: "jsval list" where
  "csv_header =
     [Str ''Date'', Str ''Particulars'', Str ''Debit Country'', Str ''Debit (Out)'',
      Str ''Credit Country'', Str ''Credit (In)'', Str ''Balance'']"

definition csv_row :: "AccountEntry \<Rightarrow> jsval list" where
  "csv_row entry =
     [Str (date entry),
      Str (particulars entry),
      or_dash (debitCountry entry),
      or_dash (debit entry),
      or_dash (creditCountry entry),
      or_dash (credit entry),
      balance entry]"

definition csvContent :: "(jsnum \<Rightarrow> string) \<Rightarrow> AccountEntry list \<Rightarrow> string" where
  "csvContent num_str dataToExport =
     join_strings [CHR 0x0A]
       (map (join num_str '','') (csv_header # map csv_row dataToExport))"

text \<open>The text of the file that \<open>exportToCSV\<close> offers for download.\<close>

definition exportToCSV :: "(jsnum \<Rightarrow> string) \<Rightarrow> component \<Rightarrow> string" where
  "exportToCSV num_str st =
     csvContent num_str
       (if length (filteredEntries st) > 0 then filteredEntries st else entries st)"

text \<open>The template of one line of the message, with its seven holes.\<close>

definition share_line ::
  "string \<Rightarrow> string \<Rightarrow> string \<Rightarrow> string \<Rightarrow> string \<Rightarrow> string \<Rightarrow> string \<Rightarrow> string" where
  "share_line d p dc db cc cr bal =
     (d @ '' | '' @ p @ '' | '')
     @ (''Debit Country: '' @ dc @ '' | Debit: '' @ db @ '' | '')
     @ (''Credit Country: '' @ cc @ '' | Credit: '' @ cr @ '' | '')
     @ (''Balance: '' @ bal @ [CHR 0x0A])"

definition share_entry :: "(jsnum \<Rightarrow> string) \<Rightarrow> AccountEntry \<Rightarrow> string" where
  "share_entry num_str entry =
     share_line (date entry) (particulars entry)
       (to_string num_str (or_dash (debitCountry entry)))
       (to_string num_str (or_dash (debit entry)))
       (to_string num_str (or_dash (creditCountry entry)))
       (to_string num_str (or_dash (credit entry)))
       (to_string num_str (balance entry))"

definition message :: "(jsnum \<Rightarrow> string) \<Rightarrow> AccountEntry list \<Rightarrow> string" where
  "message num_str dataToShare =
     foldl (\<lambda>m entry. m @ share_entry num_str entry)
       (''Account Statement:'' @ [CHR 0x0A, CHR 0x0A]) dataToShare"

text \<open>The text that \<open>shareViaWhatsApp\<close> puts, URI-encoded, into the link it opens.\<close>

definition shareViaWhatsApp :: "(jsnum \<Rightarrow> string) \<Rightarrow> component \<Rightarrow> string" where
  "shareViaWhatsApp num_str st =
     message num_str
       (if length (filteredEntries st) > 0 then filteredEntries st else entries st)"

section \<open>Sample data\<close>

text \<open>
  The decimal digits of a natural number, and with them the rendering of the numbers that
  are integers, which is all the samples hold. The samples hold no date among their
  amounts either.
\<close>

fun decimal :: "nat \<Rightarrow> string" where
  "decimal n =
     (if n < 10 then [''0123456789'' ! n] else decimal (n div 10) @ [''0123456789'' ! (n mod 10)])"

fun sample_num_str :: "jsnum \<Rightarrow> string" where
  "sample_num_str NaN = ''NaN''"
| "sample_num_str PInf = ''Infinity''"
| "sample_num_str NInf = ''-Infinity''"
| "sample_num_str (Fin r) =
     (if r < 0 then ''-'' @ decimal (nat \<lfloor>- r\<rfloor>) else decimal (nat \<lfloor>r\<rfloor>))"

definition sample_date_str :: "nat \<Rightarrow> string" where
  "sample_date_str t = []"

text \<open>The two entries of the specification's scenario, as stored.\<close>

definition alice_doc :: stored where
  "alice_doc =
     \<lparr>oid = ''65a1b2c3d4e5f60718293a01'',
      entry_doc =
        [''date'' \<mapsto> Prim (Str ''2024-01-01''), ''particulars'' \<mapsto> Prim (Str ''Alice''),
         ''credit'' \<mapsto> Prim (Num (Fin 100)), ''debit'' \<mapsto> Prim (Num (Fin 0))]\<rparr>"

definition bob_doc :: stored where
  "bob_doc =
     \<lparr>oid = ''65a1b2c3d4e5f60718293a02'',
      entry_doc =
        [''date'' \<mapsto> Prim (Str ''2024-01-02''), ''particulars'' \<mapsto> Prim (Str ''Bob''),
         ''credit'' \<mapsto> Prim (Num (Fin 0)), ''debit'' \<mapsto> Prim (Num (Fin 40))]\<rparr>"

text \<open>Two entries whose amounts are doubles and whose sum on the way is not.\<close>

definition one_doc :: stored where
  "one_doc =
     \<lparr>oid = ''65a1b2c3d4e5f60718293a06'',
      entry_doc =
        [''date'' \<mapsto> Prim (Str ''2024-02-01''), ''particulars'' \<mapsto> Prim (Str ''Erin''),
         ''credit'' \<mapsto> Prim (Num (Fin 1)), ''debit'' \<mapsto> Prim (Num (Fin 0))]\<rparr>"

definition big_doc :: stored where
  "big_doc =
     \<lparr>oid = ''65a1b2c3d4e5f60718293a07'',
      entry_doc =
        [''date'' \<mapsto> Prim (Str ''2024-02-02''), ''particulars'' \<mapsto> Prim (Str ''Frank''),
         ''credit'' \<mapsto> Prim (Num (Fin 9007199254740992)),
         ''debit'' \<mapsto> Prim (Num (Fin 9007199254740992))]\<rparr>"

definition carol_doc :: stored where
  "carol_doc =
     \<lparr>oid = ''65a1b2c3d4e5f60718293a03'',
      entry_doc =
        [''date'' \<mapsto> Prim (Str ''2024-01-01''), ''particulars'' \<mapsto> Prim (Str ''Carol''),
         ''credit'' \<mapsto> Prim (Num (Fin 100))]\<rparr>"

text \<open>Bodies as the form sends them: every member a string.\<close>

definition zero_body :: request_body where
  "zero_body =
     [''date'' \<mapsto> Str ''2024-01-03'', ''particulars'' \<mapsto> Str ''Dave'',
      ''debitCountry'' \<mapsto> Str [], ''debit'' \<mapsto> Str ''0'',
      ''creditCountry'' \<mapsto> Str [], ''credit'' \<mapsto> Str ''0'']"

definition blank_body :: request_body where
  "blank_body =
     [''date'' \<mapsto> Str ''2024-01-03'', ''particulars'' \<mapsto> Str [],
      ''debitCountry'' \<mapsto> Str [], ''debit'' \<mapsto> Str ''25'',
      ''creditCountry'' \<mapsto> Str [], ''credit'' \<mapsto> Str []]"

definition dave_body :: request_body where
  "dave_body =
     [''date'' \<mapsto> Str ''2024-01-03'', ''particulars'' \<mapsto> Str ''Dave'',
      ''debitCountry'' \<mapsto> Str [], ''debit'' \<mapsto> Str ''25'',
      ''creditCountry'' \<mapsto> Str [], ''credit'' \<mapsto> Str []]"

text \<open>The entries of the scenario as the component holds them, and a third.\<close>

definition alice :: AccountEntry where
  "alice =
     \<lparr>entry_id = ''65a1b2c3d4e5f60718293a01'', date = ''2024-01-01'', particulars = ''Alice'',
      debitCountry = Num (Fin 0), debit = Num (Fin 0),
      creditCountry = Num (Fin 0), credit = Num (Fin 100), balance = Num (Fin 100)\<rparr>"

definition bob :: AccountEntry where
  "bob =
     \<lparr>entry_id = ''65a1b2c3d4e5f60718293a02'', date = ''2024-01-02'', particulars = ''Bob'',
      debitCountry = Num (Fin 0), debit = Num (Fin 40),
      creditCountry = Num (Fin 0), credit = Num (Fin 0), balance = Num (Fin 60)\<rparr>"

definition carol_smith :: AccountEntry where
  "carol_smith =
     \<lparr>entry_id = ''65a1b2c3d4e5f60718293a05'', date = ''2024-01-03'',
      particulars = ''Carol Smith'',
      debitCountry = Num (Fin 0), debit = Num (Fin 0),
      creditCountry = Num (Fin 0), credit = Num (Fin 15), balance = Num (Fin 75)\<rparr>"

definition searching :: "AccountEntry list \<Rightarrow> string \<Rightarrow> string \<Rightarrow> string \<Rightarrow> component" where
  "searching es q a b =
     \<lparr>entries = es,
      exportFilters = \<lparr>filter_particulars = q, startDate = a, endDate = b\<rparr>,
      filteredEntries = []\<rparr>"

section \<open>Rounding on the samples\<close>

lemma round64_0 [simp]: "round64 0 = Fin 0"
  by (simp add: round64_def)

text \<open>The steps of \<open>round64\<close>, one at a time.\<close>

lemma round64_steps:
  assumes "0 < x" and "ilog2 x = k" and "max (k - 52) (- 1074) = e"
    and "round_even (x / pow2 e) = m" and "of_int m * pow2 e = y" and "y < 2 ^ 1024"
  shows "round64 x = Fin y"
  using assms by (simp add: round64_def Let_def)

lemma round64_1: "round64 1 = Fin 1"
  by (rule round64_steps [where k = 0 and e = "- 52" and m = "2 ^ 52"])
    (simp_all add: ilog2_def round_even_def pow2_def)

lemma round64_40: "round64 40 = Fin 40"
  by (rule round64_steps [where k = 5 and e = "- 47" and m = "40 * 2 ^ 47"])
    (simp_all add: ilog2_def round_even_def pow2_def)

lemma round64_60: "round64 60 = Fin 60"
  by (rule round64_steps [where k = 5 and e = "- 47" and m = "60 * 2 ^ 47"])
    (simp_all add: ilog2_def round_even_def pow2_def)

lemma round64_100: "round64 100 = Fin 100"
  by (rule round64_steps [where k = 6 and e = "- 46" and m = "100 * 2 ^ 46"])
    (simp_all add: ilog2_def round_even_def pow2_def)

lemma round64_2_53: "round64 9007199254740992 = Fin 9007199254740992"
  by (rule round64_steps [where k = 53 and e = 1 and m = "2 ^ 52"])
    (simp_all add: ilog2_def round_even_def pow2_def)

text \<open>\<open>2 ^ 53 + 1\<close> lies half way between two doubles; the even significand wins.\<close>

lemma floor_half_2_53_1: "\<lfloor>9007199254740993 / 2 :: rat\<rfloor> = 4503599627370496"
  by (rule floor_unique) simp_all

lemma round64_2_53_1: "round64 9007199254740993 = Fin 9007199254740992"
  by (rule round64_steps [where k = 53 and e = 1 and m = "2 ^ 52"])
    (simp_all add: ilog2_def round_even_def pow2_def Let_def floor_half_2_53_1)

lemmas round64_samples =
  round64_1 round64_40 round64_60 round64_100 round64_2_53 round64_2_53_1

section \<open>The running balance is the fold of the rounded steps\<close>

lemma has_amountD:
  "has_amount e k \<Longrightarrow> field (entry_doc e) k = Prim (Num (Fin (amount e k)))"
  by (auto simp: has_amount_def amount_def split: bson.splits jsval.splits jsnum.splits)

lemma step_fin:
  assumes "has_amount e ''credit''" "has_amount e ''debit''"
  shows "js_minus (js_plus ns ds rb (field (entry_doc e) ''credit''))
           (field (entry_doc e) ''debit'')
         = num_sub (num_add rb (Fin (amount e ''credit''))) (Fin (amount e ''debit''))"
  using assms by (simp add: has_amountD js_minus_def)

lemma length_processedEntries [simp]:
  "length (processedEntries ns ds rb es) = length es"
  by (induction es arbitrary: rb) (simp_all add: Let_def)

lemma processedEntries_fold:
  assumes "\<forall>e\<in>set es. has_amount e ''credit'' \<and> has_amount e ''debit''"
    and "i < length es"
  shows "processedEntries ns ds rb es ! i
           = processed (es ! i)
               (foldl (\<lambda>acc e. num_sub (num_add acc (Fin (amount e ''credit'')))
                                  (Fin (amount e ''debit'')))
                  rb (take (Suc i) es))"
  using assms
proof (induction es arbitrary: rb i)
  case Nil
  then show ?case by simp
next
  case (Cons e es)
  from Cons.prems have he: "has_amount e ''credit''" "has_amount e ''debit''"
    and rest: "\<forall>e\<in>set es. has_amount e ''credit'' \<and> has_amount e ''debit''"
    by simp_all
  show ?case
  proof (cases i)
    case 0
    then show ?thesis by (simp add: step_fin [OF he] Let_def)
  next
    case (Suc k)
    with Cons.prems have k: "k < length es" by simp
    from Cons.IH [OF rest k] show ?thesis
      using Suc by (simp add: step_fin [OF he] Let_def)
  qed
qed

lemma step_exact:
  assumes "is_double (a + c)" and "is_double (a + c - d)"
  shows "num_sub (num_add (Fin a) (Fin c)) (Fin d) = Fin (a + c - d)"
  using assms by (simp add: is_double_def num_sub_def)

lemma fold_exact:
  assumes "i < length es"
    and "\<forall>j\<le>i. is_double ((\<Sum>k<j. net (es ! k)) + amount (es ! j) ''credit'')
                \<and> is_double (\<Sum>k\<le>j. net (es ! k))"
  shows "foldl (\<lambda>acc e. num_sub (num_add acc (Fin (amount e ''credit'')))
                          (Fin (amount e ''debit'')))
           (Fin 0) (take (Suc i) es)
         = Fin (\<Sum>j\<le>i. net (es ! j))"
  using assms
proof (induction i)
  case 0
  then obtain e rest where es: "es = e # rest"
    by (cases es) auto
  from 0(2) have "is_double (0 + amount e ''credit'')" "is_double (0 + amount e ''credit'' - amount e ''debit'')"
    by (simp_all add: es net_def)
  from step_exact [OF this] show ?case
    by (simp add: es net_def)
next
  case (Suc i)
  from Suc.prems have i: "i < length es" and si: "Suc i < length es"
    by simp_all
  from Suc.prems(2) have
    prev: "\<forall>j\<le>i. is_double ((\<Sum>k<j. net (es ! k)) + amount (es ! j) ''credit'')
                  \<and> is_double (\<Sum>k\<le>j. net (es ! k))"
    by simp
  let ?s = "\<Sum>j\<le>i. net (es ! j)"
  from Suc.prems(2) have
    "is_double ((\<Sum>k<Suc i. net (es ! k)) + amount (es ! Suc i) ''credit'')"
    "is_double (\<Sum>k\<le>Suc i. net (es ! k))"
    by blast+
  then have d: "is_double (?s + amount (es ! Suc i) ''credit'')"
    "is_double (?s + amount (es ! Suc i) ''credit'' - amount (es ! Suc i) ''debit'')"
    by (simp_all add: lessThan_Suc_atMost net_def add_diff_eq)
  have "take (Suc (Suc i)) es = take (Suc i) es @ [es ! Suc i]"
    using si by (rule take_Suc_conv_app_nth)
  then show ?case
    using Suc.IH [OF i prev] step_exact [OF d]
    by (simp add: net_def add_diff_eq)
qed

text \<open>
  C1, as amended. For every sequence of entries as the store returns it, each with a finite
  double as credit and as debit, GET answers 200 with one entry per stored entry, and the
  balance of the entry at position \<open>i\<close> is the left fold, from 0, over the first \<open>i + 1\<close>
  entries of the step that adds the credit and then takes off the debit, each of the two
  operations rounded to a double. It is the sum of credit less debit over the positions 0
  to \<open>i\<close> whenever no step rounds: when every sum up to a credit and every sum up to a
  debit, as far as \<open>i\<close>, is a double. The order of the dates plays no part, so the
  sequences sorted by date are covered.
\<close>

theorem GET_running_balance:
  assumes "\<forall>e\<in>set es. has_amount e ''credit'' \<and> has_amount e ''debit''"
  shows "\<exists>out. GET ns ds es = \<lparr>status = 200, body = Entries out\<rparr> \<and> length out = length es \<and>
           (\<forall>i<length es.
              field (out ! i) ''balance''
                = Prim (Num (foldl (\<lambda>acc e. num_sub (num_add acc (Fin (amount e ''credit'')))
                                                (Fin (amount e ''debit'')))
                               (Fin 0) (take (Suc i) es))) \<and>
              ((\<forall>j\<le>i. is_double ((\<Sum>k<j. net (es ! k)) + amount (es ! j) ''credit'')
                       \<and> is_double (\<Sum>k\<le>j. net (es ! k))) \<longrightarrow>
               field (out ! i) ''balance''
                 = Prim (Num (Fin (\<Sum>j\<le>i. amount (es ! j) ''credit''
                                          - amount (es ! j) ''debit'')))))"
proof -
  let ?out = "processedEntries ns ds (Fin 0) es"
  let ?step = "\<lambda>acc e. num_sub (num_add acc (Fin (amount e ''credit''))) (Fin (amount e ''debit''))"
  have bal: "field (?out ! i) ''balance'' = Prim (Num (foldl ?step (Fin 0) (take (Suc i) es)))"
    if "i < length es" for i
    using processedEntries_fold [OF assms that, of ns ds "Fin 0"]
    by (simp add: processed_def field_def)
  have exact: "field (?out ! i) ''balance''
                 = Prim (Num (Fin (\<Sum>j\<le>i. amount (es ! j) ''credit'' - amount (es ! j) ''debit'')))"
    if "i < length es"
      and "\<forall>j\<le>i. is_double ((\<Sum>k<j. net (es ! k)) + amount (es ! j) ''credit'')
                  \<and> is_double (\<Sum>k\<le>j. net (es ! k))" for i
    using bal [OF that(1)] fold_exact [OF that] by (simp add: net_def)
  have "GET ns ds es = \<lparr>status = 200, body = Entries ?out\<rparr>"
    by (simp add: GET_def)
  moreover have "length ?out = length es"
    by simp
  ultimately show ?thesis
    using bal exact by blast
qed

text \<open>The scenario: credits 100 and 0, debits 0 and 40, no step rounds, balances 100 and 60.\<close>

theorem GET_running_balance_witness:
  "has_amount alice_doc ''credit'' \<and> has_amount alice_doc ''debit'' \<and>
   has_amount bob_doc ''credit'' \<and> has_amount bob_doc ''debit'' \<and>
   is_double (0 + 100) \<and> is_double (100 - 0) \<and> is_double (100 + 0) \<and> is_double (100 - 40) \<and>
   balances (GET sample_num_str sample_date_str [alice_doc, bob_doc])
     = [Prim (Num (Fin 100)), Prim (Num (Fin 60))]"
proof -
  have d: "is_double 0" "is_double 40" "is_double 60" "is_double 100"
    by (simp_all add: is_double_def round64_samples)
  have h: "\<forall>e\<in>set [alice_doc, bob_doc]. has_amount e ''credit'' \<and> has_amount e ''debit''"
    by (simp add: has_amount_def field_def alice_doc_def bob_doc_def d)
  have n: "net alice_doc = 100" "net bob_doc = - 40"
    "amount alice_doc ''credit'' = 100" "amount bob_doc ''credit'' = 0"
    "amount alice_doc ''debit'' = 0" "amount bob_doc ''debit'' = 40"
    by (simp_all add: net_def amount_def field_def alice_doc_def bob_doc_def)
  have x: "\<forall>j\<le>i. is_double ((\<Sum>k<j. net ([alice_doc, bob_doc] ! k))
                          + amount ([alice_doc, bob_doc] ! j) ''credit'')
                \<and> is_double (\<Sum>k\<le>j. net ([alice_doc, bob_doc] ! k))"
    if "i < 2" for i
  proof (intro allI impI)
    fix j assume "j \<le> i"
    with that have "j = 0 \<or> j = 1" by auto
    then show "is_double ((\<Sum>k<j. net ([alice_doc, bob_doc] ! k))
                          + amount ([alice_doc, bob_doc] ! j) ''credit'')
                \<and> is_double (\<Sum>k\<le>j. net ([alice_doc, bob_doc] ! k))"
      by (auto simp: n d lessThan_Suc)
  qed
  from GET_running_balance [OF h, of sample_num_str sample_date_str] obtain out where
    out: "GET sample_num_str sample_date_str [alice_doc, bob_doc]
            = \<lparr>status = 200, body = Entries out\<rparr>"
      "length out = length [alice_doc, bob_doc]"
      and ex: "\<forall>i<length [alice_doc, bob_doc].
        field (out ! i) ''balance''
          = Prim (Num (foldl (\<lambda>acc e. num_sub (num_add acc (Fin (amount e ''credit'')))
                                          (Fin (amount e ''debit'')))
                         (Fin 0) (take (Suc i) [alice_doc, bob_doc]))) \<and>
        ((\<forall>j\<le>i. is_double ((\<Sum>k<j. net ([alice_doc, bob_doc] ! k))
                          + amount ([alice_doc, bob_doc] ! j) ''credit'')
                \<and> is_double (\<Sum>k\<le>j. net ([alice_doc, bob_doc] ! k))) \<longrightarrow>
         field (out ! i) ''balance''
           = Prim (Num (Fin (\<Sum>j\<le>i. amount ([alice_doc, bob_doc] ! j) ''credit''
                                    - amount ([alice_doc, bob_doc] ! j) ''debit''))))"
    by blast
  have "field (out ! 0) ''balance''
          = Prim (Num (Fin (\<Sum>j\<le>0. amount ([alice_doc, bob_doc] ! j) ''credit''
                                   - amount ([alice_doc, bob_doc] ! j) ''debit'')))"
    by (rule ex [rule_format, of 0, THEN conjunct2, THEN mp]) (simp, rule x, simp)
  moreover have "field (out ! 1) ''balance''
          = Prim (Num (Fin (\<Sum>j\<le>1. amount ([alice_doc, bob_doc] ! j) ''credit''
                                   - amount ([alice_doc, bob_doc] ! j) ''debit'')))"
    by (rule ex [rule_format, of 1, THEN conjunct2, THEN mp]) (simp, rule x, simp)
  ultimately have
    b: "field (out ! 0) ''balance'' = Prim (Num (Fin 100))"
      "field (out ! 1) ''balance'' = Prim (Num (Fin 60))"
    by (simp_all add: n)
  from out(2) obtain a b' where "out = [a, b']"
    by (cases out; cases "tl out") auto
  with out b show ?thesis
    using h d by (simp add: balances_def)
qed

text \<open>
  Credits 1 and \<open>2 ^ 53\<close>, debits 0 and \<open>2 ^ 53\<close>: all four are doubles, the sum of credit
  less debit over both entries is 1, and the second balance is 0, since \<open>1 + 2 ^ 53\<close>
  rounds to \<open>2 ^ 53\<close>.
\<close>

theorem rounding_counterexample:
  "has_amount one_doc ''credit'' \<and> has_amount one_doc ''debit'' \<and>
   has_amount big_doc ''credit'' \<and> has_amount big_doc ''debit'' \<and>
   (amount one_doc ''credit'' - amount one_doc ''debit'')
     + (amount big_doc ''credit'' - amount big_doc ''debit'') = 1 \<and>
   balances (GET sample_num_str sample_date_str [one_doc, big_doc])
     = [Prim (Num (Fin 1)), Prim (Num (Fin 0))]"
  by (simp add: has_amount_def amount_def field_def one_doc_def big_doc_def is_double_def
      round64_samples balances_def GET_def processed_def js_minus_def num_sub_def Let_def)

section \<open>A missing amount is not read as 0\<close>

lemma num_add_NaN [simp]: "num_add x NaN = NaN" "num_add NaN x = NaN"
  by (cases x; simp)+

lemma js_minus_Undefined: "js_minus x (Prim Undefined) = NaN"
  by (simp add: js_minus_def num_sub_def)

lemma js_minus_NaN: "js_minus (Num NaN) w = NaN"
  by (simp add: js_minus_def num_sub_def)

lemma js_plus_NaN: "adds c \<Longrightarrow> js_plus ns ds NaN c = Num NaN"
  by (cases "(ns, ds, NaN, c)" rule: js_plus.cases) auto

lemma js_plus_Undefined: "js_plus ns ds rb (Prim Undefined) = Num NaN"
  by simp

lemma step_NaN:
  assumes "adds (field (entry_doc e) ''credit'')"
  shows "js_minus (js_plus ns ds NaN (field (entry_doc e) ''credit''))
           (field (entry_doc e) ''debit'') = NaN"
  by (simp add: js_plus_NaN [OF assms] js_minus_NaN)

lemma step_missing:
  assumes "field (entry_doc e) ''credit'' = Prim Undefined
           \<or> field (entry_doc e) ''debit'' = Prim Undefined"
  shows "js_minus (js_plus ns ds rb (field (entry_doc e) ''credit''))
           (field (entry_doc e) ''debit'') = NaN"
  using assms by (auto simp: js_minus_Undefined js_minus_NaN)

lemma processedEntries_NaN:
  assumes "\<forall>e\<in>set es. adds (field (entry_doc e) ''credit'')" and "i < length es"
  shows "processedEntries ns ds NaN es ! i = processed (es ! i) NaN"
  using assms
proof (induction es arbitrary: i)
  case Nil
  then show ?case by simp
next
  case (Cons e es)
  then show ?case
    by (cases i) (simp_all add: step_NaN Let_def)
qed

lemma processedEntries_missing:
  assumes "\<forall>e\<in>set es. adds (field (entry_doc e) ''credit'')"
    and "k \<le> i" and "i < length es"
    and "field (entry_doc (es ! k)) ''credit'' = Prim Undefined
         \<or> field (entry_doc (es ! k)) ''debit'' = Prim Undefined"
  shows "processedEntries ns ds rb es ! i = processed (es ! i) NaN"
  using assms
proof (induction es arbitrary: rb k i)
  case Nil
  then show ?case by simp
next
  case (Cons e es)
  from Cons.prems(1) have rest: "\<forall>e\<in>set es. adds (field (entry_doc e) ''credit'')"
    by simp
  show ?case
  proof (cases k)
    case 0
    with Cons.prems(4) have nan:
      "js_minus (js_plus ns ds rb (field (entry_doc e) ''credit''))
         (field (entry_doc e) ''debit'') = NaN"
      by (simp add: step_missing)
    show ?thesis
    proof (cases i)
      case 0
      then show ?thesis by (simp add: nan Let_def)
    next
      case (Suc i')
      with Cons.prems(3) have "i' < length es" by simp
      from processedEntries_NaN [OF rest this] show ?thesis
        using Suc by (simp add: nan Let_def)
    qed
  next
    case (Suc k')
    with Cons.prems(2) obtain i' where i: "i = Suc i'" "k' \<le> i'"
      by (cases i) auto
    with Cons.prems(3) have "i' < length es" by simp
    moreover from Cons.prems(4) Suc have
      "field (entry_doc (es ! k')) ''credit'' = Prim Undefined
       \<or> field (entry_doc (es ! k')) ''debit'' = Prim Undefined"
      by simp
    ultimately show ?thesis
      using Cons.IH [OF rest i(2)] i(1) by (simp add: Let_def)
  qed
qed

text \<open>
  C2, as amended. GET never fails, whatever the entries hold: it answers 200 with one entry
  per stored entry. An amount that is missing or undefined is not read as 0: where no
  credit is a string or a date, a missing credit or debit makes the balance of its entry
  and of every later entry NaN.
\<close>

theorem GET_missing_amount:
  "(\<exists>out. GET ns ds es = \<lparr>status = 200, body = Entries out\<rparr> \<and> length out = length es) \<and>
   ((\<forall>e\<in>set es. adds (field (entry_doc e) ''credit'')) \<longrightarrow>
    (\<forall>k i. k \<le> i \<and> i < length es \<and>
       (field (entry_doc (es ! k)) ''credit'' = Prim Undefined
        \<or> field (entry_doc (es ! k)) ''debit'' = Prim Undefined)
       \<longrightarrow> balances (GET ns ds es) ! i = Prim (Num NaN)))"
proof (intro conjI impI allI)
  show "\<exists>out. GET ns ds es = \<lparr>status = 200, body = Entries out\<rparr> \<and> length out = length es"
    by (simp add: GET_def)
next
  fix k i
  assume a: "\<forall>e\<in>set es. adds (field (entry_doc e) ''credit'')"
    and b: "k \<le> i \<and> i < length es \<and>
       (field (entry_doc (es ! k)) ''credit'' = Prim Undefined
        \<or> field (entry_doc (es ! k)) ''debit'' = Prim Undefined)"
  from b have "processedEntries ns ds (Fin 0) es ! i = processed (es ! i) NaN"
    using processedEntries_missing [OF a, of k i ns ds "Fin 0"] by blast
  with b show "balances (GET ns ds es) ! i = Prim (Num NaN)"
    by (simp add: balances_def GET_def processed_def field_def)
qed

theorem GET_missing_amount_witness:
  "adds (field (entry_doc carol_doc) ''credit'') \<and> adds (field (entry_doc bob_doc) ''credit'') \<and>
   field (entry_doc carol_doc) ''debit'' = Prim Undefined \<and>
   status (GET sample_num_str sample_date_str [carol_doc, bob_doc]) = 200 \<and>
   balances (GET sample_num_str sample_date_str [carol_doc, bob_doc]) ! 0 = Prim (Num NaN) \<and>
   balances (GET sample_num_str sample_date_str [carol_doc, bob_doc]) ! 1 = Prim (Num NaN)"
proof -
  have a: "\<forall>e\<in>set [carol_doc, bob_doc]. adds (field (entry_doc e) ''credit'')"
    by (simp add: carol_doc_def bob_doc_def field_def)
  have u: "field (entry_doc ([carol_doc, bob_doc] ! 0)) ''debit'' = Prim Undefined"
    by (simp add: carol_doc_def field_def)
  note t = GET_missing_amount [of sample_num_str sample_date_str "[carol_doc, bob_doc]"]
  from t obtain out where "GET sample_num_str sample_date_str [carol_doc, bob_doc] = \<lparr>status = 200, body = Entries out\<rparr>"
    by blast
  then have s: "status (GET sample_num_str sample_date_str [carol_doc, bob_doc]) = 200"
    by simp
  from t a have r: "\<And>k i. k \<le> i \<and> i < length [carol_doc, bob_doc] \<and>
       (field (entry_doc ([carol_doc, bob_doc] ! k)) ''credit'' = Prim Undefined
        \<or> field (entry_doc ([carol_doc, bob_doc] ! k)) ''debit'' = Prim Undefined)
       \<Longrightarrow> balances (GET sample_num_str sample_date_str [carol_doc, bob_doc]) ! i = Prim (Num NaN)"
    by blast
  have "balances (GET sample_num_str sample_date_str [carol_doc, bob_doc]) ! 0 = Prim (Num NaN)"
    using r [of 0 0] u by simp
  moreover have "balances (GET sample_num_str sample_date_str [carol_doc, bob_doc]) ! 1 = Prim (Num NaN)"
    using r [of 0 1] u by simp
  ultimately show ?thesis
    using a u s by simp
qed

text \<open>
  An entry with a credit of 100 and no debit has the balance NaN; with the debit put to 0
  its balance is 100.
\<close>

theorem missing_amount_counterexample:
  "entry_doc carol_doc ''debit'' = None \<and>
   balances (GET sample_num_str sample_date_str [carol_doc]) = [Prim (Num NaN)] \<and>
   balances (GET sample_num_str sample_date_str
      [carol_doc\<lparr>entry_doc := (entry_doc carol_doc)(''debit'' \<mapsto> Prim (Num (Fin 0)))\<rparr>])
     = [Prim (Num (Fin 100))]"
  by (simp add: carol_doc_def balances_def GET_def processed_def field_def js_minus_def
      num_sub_def round64_samples)

section \<open>Validation at the boundary\<close>

lemma string_to_number_0: "string_to_number ''0'' = Fin 0"
  by (simp add: string_to_number_def trim_def is_ws_def radix_prefix_def unsigned_decimal_def
      mantissa_def digits_def digit_of_def is_exp_char_def)

lemma sample_ids:
  "ObjectId ''65a1b2c3d4e5f60718293a01'' = Some ''65a1b2c3d4e5f60718293a01''"
  "ObjectId ''65a1b2c3d4e5f60718293a02'' = Some ''65a1b2c3d4e5f60718293a02''"
  "ObjectId ''65a1b2c3d4e5f60718293a04'' = Some ''65a1b2c3d4e5f60718293a04''"
  by (simp_all add: ObjectId_def digit_of_def lower_char_def)

text \<open>
  C3, as amended. A create (POST) or an update (PUT) is rejected with status 400 exactly
  when the particulars sent are falsy (absent, null, false, 0, NaN or the empty string) or
  both the debit and the credit sent are falsy. The test reads the values as they were
  sent, before the coercion to numbers. A rejected request leaves the store as it was.
\<close>

theorem validation_rejects:
  "(status (fst (POST i c u b db)) = 400 \<longleftrightarrow>
      \<not> truthy (member b ''particulars'')
      \<or> (\<not> truthy (member b ''debit'') \<and> \<not> truthy (member b ''credit''))) \<and>
   (status (fst (PUT ident u b db)) = 400 \<longleftrightarrow>
      \<not> truthy (member b ''particulars'')
      \<or> (\<not> truthy (member b ''debit'') \<and> \<not> truthy (member b ''credit''))) \<and>
   (status (fst (POST i c u b db)) = 400 \<longrightarrow> snd (POST i c u b db) = db) \<and>
   (status (fst (PUT ident u b db)) = 400 \<longrightarrow> snd (PUT ident u b db) = db)"
proof -
  have post: "status (fst (POST i c u b db)) = 400 \<longleftrightarrow>
      \<not> truthy (member b ''particulars'')
      \<or> (\<not> truthy (member b ''debit'') \<and> \<not> truthy (member b ''credit''))"
    by (simp add: POST_def Let_def)
  have put: "status (fst (PUT ident u b db)) = 400 \<longleftrightarrow>
      \<not> truthy (member b ''particulars'')
      \<or> (\<not> truthy (member b ''debit'') \<and> \<not> truthy (member b ''credit''))"
    by (simp add: PUT_def split: option.splits prod.splits)
  have post_db: "snd (POST i c u b db) = db" if "status (fst (POST i c u b db)) = 400"
    using that post by (simp add: POST_def)
  have put_db: "snd (PUT ident u b db) = db" if "status (fst (PUT ident u b db)) = 400"
    using that put by (simp add: PUT_def)
  show ?thesis
    using post put post_db put_db by blast
qed

theorem validation_rejects_witness:
  "status (fst (POST ''65a1b2c3d4e5f60718293a04'' 5 6 blank_body [alice_doc])) = 400 \<and>
   snd (POST ''65a1b2c3d4e5f60718293a04'' 5 6 blank_body [alice_doc]) = [alice_doc] \<and>
   status (fst (PUT ''65a1b2c3d4e5f60718293a01'' 6 blank_body [alice_doc])) = 400 \<and>
   snd (PUT ''65a1b2c3d4e5f60718293a01'' 6 blank_body [alice_doc]) = [alice_doc] \<and>
   status (fst (POST ''65a1b2c3d4e5f60718293a04'' 5 6 dave_body [alice_doc])) = 201 \<and>
   status (fst (PUT ''65a1b2c3d4e5f60718293a01'' 6 dave_body [alice_doc])) = 200"
proof -
  have blank: "\<not> truthy (member blank_body ''particulars'')"
    by (simp add: blank_body_def member_def)
  note p = validation_rejects [of "''65a1b2c3d4e5f60718293a04''" 5 6 blank_body "[alice_doc]"
      "''65a1b2c3d4e5f60718293a01''"]
  from p blank have
    "status (fst (POST ''65a1b2c3d4e5f60718293a04'' 5 6 blank_body [alice_doc])) = 400"
    "status (fst (PUT ''65a1b2c3d4e5f60718293a01'' 6 blank_body [alice_doc])) = 400"
    by blast+
  moreover from this p have
    "snd (POST ''65a1b2c3d4e5f60718293a04'' 5 6 blank_body [alice_doc]) = [alice_doc]"
    "snd (PUT ''65a1b2c3d4e5f60718293a01'' 6 blank_body [alice_doc]) = [alice_doc]"
    by blast+
  moreover have
    "status (fst (POST ''65a1b2c3d4e5f60718293a04'' 5 6 dave_body [alice_doc])) = 201"
    by (simp add: POST_def dave_body_def member_def Let_def)
  moreover have "status (fst (PUT ''65a1b2c3d4e5f60718293a01'' 6 dave_body [alice_doc])) = 200"
    by (simp add: PUT_def dave_body_def member_def sample_ids alice_doc_def)
  ultimately show ?thesis by simp
qed

text \<open>
  The strings \<open>"0"\<close> are truthy and coerce to 0: a request with both amounts \<open>"0"\<close> is
  accepted by POST and by PUT, and stored with debit 0 and credit 0.
\<close>

theorem zero_amounts_counterexample:
  "truthy (member zero_body ''particulars'') \<and>
   to_number (member zero_body ''debit'') = Fin 0 \<and>
   to_number (member zero_body ''credit'') = Fin 0 \<and>
   status (fst (POST ''65a1b2c3d4e5f60718293a04'' 5 6 zero_body [])) = 201 \<and>
   map (\<lambda>e. (oid e, entry_doc e ''debit'', entry_doc e ''credit''))
     (snd (POST ''65a1b2c3d4e5f60718293a04'' 5 6 zero_body []))
     = [(''65a1b2c3d4e5f60718293a04'', Some (Prim (Num (Fin 0))), Some (Prim (Num (Fin 0))))] \<and>
   status (fst (PUT ''65a1b2c3d4e5f60718293a01'' 6 zero_body [alice_doc])) = 200 \<and>
   map (\<lambda>e. (oid e, entry_doc e ''debit'', entry_doc e ''credit''))
     (snd (PUT ''65a1b2c3d4e5f60718293a01'' 6 zero_body [alice_doc]))
     = [(''65a1b2c3d4e5f60718293a01'', Some (Prim (Num (Fin 0))), Some (Prim (Num (Fin 0))))]"
  by (simp add: zero_body_def member_def string_to_number_0 POST_def PUT_def Let_def
      newEntry_def updateData_def serialize_def number_or_zero_def sample_ids alice_doc_def
      map_add_def)

section \<open>Not found\<close>

lemma updateOne_absent: "i \<notin> oid ` set db \<Longrightarrow> updateOne i upd db = (0, db)"
  by (induction db) auto

lemma deleteOne_absent: "i \<notin> oid ` set db \<Longrightarrow> deleteOne i db = (0, db)"
  by (induction db) auto

lemma updateOne_present:
  "i \<in> oid ` set db \<Longrightarrow>
   \<exists>pre e post. db = pre @ e # post \<and> oid e = i \<and> i \<notin> oid ` set pre \<and>
     updateOne i upd db = (1, pre @ e\<lparr>entry_doc := entry_doc e ++ serialize upd\<rparr> # post)"
proof (induction db)
  case Nil
  then show ?case by simp
next
  case (Cons d db)
  show ?case
  proof (cases "oid d = i")
    case True
    then have "d # db = [] @ d # db \<and> oid d = i \<and> i \<notin> oid ` set [] \<and>
        updateOne i upd (d # db) = (1, [] @ d\<lparr>entry_doc := entry_doc d ++ serialize upd\<rparr> # db)"
      by simp
    then show ?thesis by blast
  next
    case False
    with Cons.prems have "i \<in> oid ` set db" by auto
    from Cons.IH [OF this] obtain pre e post where
      h: "db = pre @ e # post" "oid e = i" "i \<notin> oid ` set pre"
        "updateOne i upd db = (1, pre @ e\<lparr>entry_doc := entry_doc e ++ serialize upd\<rparr> # post)"
      by blast
    with False have "d # db = (d # pre) @ e # post \<and> oid e = i \<and> i \<notin> oid ` set (d # pre) \<and>
        updateOne i upd (d # db)
          = (1, (d # pre) @ e\<lparr>entry_doc := entry_doc e ++ serialize upd\<rparr> # post)"
      by auto
    then show ?thesis by blast
  qed
qed

lemma deleteOne_present:
  "i \<in> oid ` set db \<Longrightarrow>
   \<exists>pre e post. db = pre @ e # post \<and> oid e = i \<and> i \<notin> oid ` set pre \<and>
     deleteOne i db = (1, pre @ post)"
proof (induction db)
  case Nil
  then show ?case by simp
next
  case (Cons d db)
  show ?case
  proof (cases "oid d = i")
    case True
    then have "d # db = [] @ d # db \<and> oid d = i \<and> i \<notin> oid ` set [] \<and>
        deleteOne i (d # db) = (1, [] @ db)"
      by simp
    then show ?thesis by blast
  next
    case False
    with Cons.prems have "i \<in> oid ` set db" by auto
    from Cons.IH [OF this] obtain pre e post where
      h: "db = pre @ e # post" "oid e = i" "i \<notin> oid ` set pre"
        "deleteOne i db = (1, pre @ post)"
      by blast
    with False have "d # db = (d # pre) @ e # post \<and> oid e = i \<and> i \<notin> oid ` set (d # pre) \<and>
        deleteOne i (d # db) = (1, (d # pre) @ post)"
      by auto
    then show ?thesis by blast
  qed
qed

text \<open>
  C8, as amended. With a well-formed id, a delete (DELETE), and an update (PUT) whose body
  passes the validation, answers 404 exactly when no stored entry has that id, and then
  leaves the store as it was. Otherwise it answers 200 and touches the entry with that id
  and no other: DELETE removes it, PUT sets the fields of \<open>updateData\<close> on it.
\<close>

theorem not_found_iff:
  assumes "ObjectId ident = Some i"
  shows
    "(status (fst (DELETE ident db)) = 404 \<longleftrightarrow> i \<notin> oid ` set db) \<and>
     (i \<notin> oid ` set db \<longrightarrow> snd (DELETE ident db) = db) \<and>
     (i \<in> oid ` set db \<longrightarrow>
        status (fst (DELETE ident db)) = 200 \<and>
        (\<exists>pre e post. db = pre @ e # post \<and> oid e = i \<and> i \<notin> oid ` set pre \<and>
           snd (DELETE ident db) = pre @ post)) \<and>
     (truthy (member b ''particulars'')
      \<and> (truthy (member b ''debit'') \<or> truthy (member b ''credit'')) \<longrightarrow>
        (status (fst (PUT ident u b db)) = 404 \<longleftrightarrow> i \<notin> oid ` set db) \<and>
        (i \<notin> oid ` set db \<longrightarrow> snd (PUT ident u b db) = db) \<and>
        (i \<in> oid ` set db \<longrightarrow>
           status (fst (PUT ident u b db)) = 200 \<and>
           (\<exists>pre e post. db = pre @ e # post \<and> oid e = i \<and> i \<notin> oid ` set pre \<and>
              snd (PUT ident u b db)
                = pre @ e\<lparr>entry_doc := entry_doc e ++ serialize (updateData u b)\<rparr> # post)))"
proof (cases "i \<in> oid ` set db")
  case False
  then show ?thesis
    using assms
    by (simp add: DELETE_def PUT_def updateOne_absent deleteOne_absent)
next
  case True
  from deleteOne_present [OF True] obtain pre e post where
    d: "db = pre @ e # post" "oid e = i" "i \<notin> oid ` set pre" "deleteOne i db = (1, pre @ post)"
    by blast
  from updateOne_present [OF True, of "updateData u b"] obtain pre' e' post' where
    p: "db = pre' @ e' # post'" "oid e' = i" "i \<notin> oid ` set pre'"
      "updateOne i (updateData u b) db
         = (1, pre' @ e'\<lparr>entry_doc := entry_doc e' ++ serialize (updateData u b)\<rparr> # post')"
    by blast
  have del: "status (fst (DELETE ident db)) = 200" "snd (DELETE ident db) = pre @ post"
    using assms d(4) by (simp_all add: DELETE_def)
  have put: "status (fst (PUT ident u b db)) = 200"
      "snd (PUT ident u b db)
         = pre' @ e'\<lparr>entry_doc := entry_doc e' ++ serialize (updateData u b)\<rparr> # post'"
    if "truthy (member b ''particulars'')"
       "truthy (member b ''debit'') \<or> truthy (member b ''credit'')"
    using assms p(4) that by (auto simp: PUT_def)
  have 1: "status (fst (DELETE ident db)) = 404 \<longleftrightarrow> i \<notin> oid ` set db"
    using True del(1) by simp
  have 2: "\<exists>pre e post. db = pre @ e # post \<and> oid e = i \<and> i \<notin> oid ` set pre \<and>
           snd (DELETE ident db) = pre @ post"
    using d(1,2,3) del(2) by blast
  have 3: "status (fst (PUT ident u b db)) = 404 \<longleftrightarrow> i \<notin> oid ` set db"
    if "truthy (member b ''particulars'')"
       "truthy (member b ''debit'') \<or> truthy (member b ''credit'')"
    using True put(1) [OF that] by simp
  have 4: "\<exists>pre e post. db = pre @ e # post \<and> oid e = i \<and> i \<notin> oid ` set pre \<and>
              snd (PUT ident u b db)
                = pre @ e\<lparr>entry_doc := entry_doc e ++ serialize (updateData u b)\<rparr> # post"
    if "truthy (member b ''particulars'')"
       "truthy (member b ''debit'') \<or> truthy (member b ''credit'')"
    using p(1,2,3) put(2) [OF that] by blast
  show ?thesis
    using True 1 2 3 4 del(1) put(1) by blast
qed

theorem not_found_iff_witness:
  "ObjectId ''65a1b2c3d4e5f60718293a04'' = Some ''65a1b2c3d4e5f60718293a04'' \<and>
   ''65a1b2c3d4e5f60718293a04'' \<notin> oid ` set [alice_doc, bob_doc] \<and>
   truthy (member dave_body ''particulars'') \<and> truthy (member dave_body ''debit'') \<and>
   status (fst (DELETE ''65a1b2c3d4e5f60718293a04'' [alice_doc, bob_doc])) = 404 \<and>
   snd (DELETE ''65a1b2c3d4e5f60718293a04'' [alice_doc, bob_doc]) = [alice_doc, bob_doc] \<and>
   status (fst (PUT ''65a1b2c3d4e5f60718293a04'' 6 dave_body [alice_doc, bob_doc])) = 404 \<and>
   snd (PUT ''65a1b2c3d4e5f60718293a04'' 6 dave_body [alice_doc, bob_doc]) = [alice_doc, bob_doc] \<and>
   status (fst (DELETE ''65a1b2c3d4e5f60718293a02'' [alice_doc, bob_doc])) = 200 \<and>
   snd (DELETE ''65a1b2c3d4e5f60718293a02'' [alice_doc, bob_doc]) = [alice_doc]"
proof -
  have a: "''65a1b2c3d4e5f60718293a04'' \<notin> oid ` set [alice_doc, bob_doc]"
    by (simp add: alice_doc_def bob_doc_def)
  have v: "truthy (member dave_body ''particulars'')" "truthy (member dave_body ''debit'')"
    by (simp_all add: dave_body_def member_def)
  note t = not_found_iff [OF sample_ids(3), of "[alice_doc, bob_doc]" dave_body 6]
  from t a v have
    "status (fst (DELETE ''65a1b2c3d4e5f60718293a04'' [alice_doc, bob_doc])) = 404"
    "snd (DELETE ''65a1b2c3d4e5f60718293a04'' [alice_doc, bob_doc]) = [alice_doc, bob_doc]"
    "status (fst (PUT ''65a1b2c3d4e5f60718293a04'' 6 dave_body [alice_doc, bob_doc])) = 404"
    "snd (PUT ''65a1b2c3d4e5f60718293a04'' 6 dave_body [alice_doc, bob_doc]) = [alice_doc, bob_doc]"
    by blast+
  moreover have
    "status (fst (DELETE ''65a1b2c3d4e5f60718293a02'' [alice_doc, bob_doc])) = 200"
    "snd (DELETE ''65a1b2c3d4e5f60718293a02'' [alice_doc, bob_doc]) = [alice_doc]"
    by (simp_all add: DELETE_def sample_ids alice_doc_def bob_doc_def)
  ultimately show ?thesis
    using a v sample_ids(3) by simp
qed

text \<open>
  An update with a well-formed id that no stored entry has, and with empty particulars, is
  answered 400, not 404.
\<close>

theorem not_found_counterexample:
  "ObjectId ''65a1b2c3d4e5f60718293a04'' = Some ''65a1b2c3d4e5f60718293a04'' \<and>
   ''65a1b2c3d4e5f60718293a04'' \<notin> oid ` set [alice_doc] \<and>
   status (fst (PUT ''65a1b2c3d4e5f60718293a04'' 6 blank_body [alice_doc])) = 400"
  by (simp add: sample_ids alice_doc_def PUT_def blank_body_def member_def)

section \<open>The balance is derived, not stored\<close>

lemma dom_newEntry:
  "dom (newEntry c u b)
     = {''date'', ''particulars'', ''debitCountry'', ''debit'', ''creditCountry'', ''credit'',
        ''createdAt'', ''updatedAt''}"
  by (auto simp: newEntry_def)

lemma dom_updateData:
  "dom (updateData u b)
     = {''date'', ''particulars'', ''debitCountry'', ''debit'', ''creditCountry'', ''credit'',
        ''updatedAt''}"
  by (auto simp: updateData_def)

lemma serialize_None: "d k = None \<Longrightarrow> serialize d k = None"
  by (simp add: serialize_def)

lemma no_balance_updateOne:
  "updateOne i upd db = (n, db') \<Longrightarrow> no_balance db \<Longrightarrow> upd ''balance'' = None
   \<Longrightarrow> no_balance db'"
  by (induction db arbitrary: n db')
    (auto simp: no_balance_def map_add_def serialize_None split: prod.splits if_splits)

lemma no_balance_deleteOne:
  "deleteOne i db = (n, db') \<Longrightarrow> no_balance db \<Longrightarrow> no_balance db'"
  by (induction db arbitrary: n db') (auto simp: no_balance_def split: prod.splits if_splits)

lemma newEntry_no_balance: "newEntry c u b ''balance'' = None"
  by (simp add: newEntry_def)

lemma updateData_no_balance: "updateData u b ''balance'' = None"
  by (simp add: updateData_def)

lemma no_balance_POST: "no_balance db \<Longrightarrow> no_balance (snd (POST i c u b db))"
  by (simp add: POST_def no_balance_def Let_def newEntry_no_balance serialize_None)

lemma no_balance_PUT: "no_balance db \<Longrightarrow> no_balance (snd (PUT ident u b db))"
  using no_balance_updateOne [where upd = "updateData u b" and db = db]
  by (auto simp: PUT_def updateData_no_balance split: option.splits prod.splits)

lemma no_balance_DELETE: "no_balance db \<Longrightarrow> no_balance (snd (DELETE ident db))"
  by (auto simp: DELETE_def split: option.splits prod.splits dest: no_balance_deleteOne)

lemma field_other: "k \<noteq> k' \<Longrightarrow> field (d(k' := v)) k = field d k"
  by (simp add: field_def)

lemma processedEntries_stored_balance:
  "map (\<lambda>d. field d ''balance'')
     (processedEntries ns ds rb (map (\<lambda>e. e\<lparr>entry_doc := (entry_doc e)(''balance'' := x e)\<rparr>) es))
   = map (\<lambda>d. field d ''balance'') (processedEntries ns ds rb es)"
  by (induction es arbitrary: rb) (simp_all add: Let_def field_other processed_def field_def)

text \<open>
  C6. No mutating operation writes a balance to the store. The record that POST inserts and
  the field set that PUT applies have no \<open>balance\<close> key, so a store without a balance
  field stays without one through POST, PUT and DELETE. The balance is derived on every
  read: whatever \<open>balance\<close> a stored document might carry, GET answers the same balances
  as without it.
\<close>

theorem balance_never_stored:
  "''balance'' \<notin> dom (newEntry c u b) \<and> ''balance'' \<notin> dom (updateData u b) \<and>
   (no_balance db \<longrightarrow>
      no_balance (snd (POST i c u b db)) \<and> no_balance (snd (PUT ident u b db)) \<and>
      no_balance (snd (DELETE ident db))) \<and>
   balances (GET ns ds (map (\<lambda>e. e\<lparr>entry_doc := (entry_doc e)(''balance'' := x e)\<rparr>) es))
     = balances (GET ns ds es)"
proof -
  have "''balance'' \<notin> dom (newEntry c u b)"
    by (simp add: dom_newEntry)
  moreover have "''balance'' \<notin> dom (updateData u b)"
    by (simp add: dom_updateData)
  moreover have
    "balances (GET ns ds (map (\<lambda>e. e\<lparr>entry_doc := (entry_doc e)(''balance'' := x e)\<rparr>) es))
       = balances (GET ns ds es)"
    by (simp add: balances_def GET_def processedEntries_stored_balance)
  ultimately show ?thesis
    using no_balance_POST no_balance_PUT no_balance_DELETE by blast
qed

theorem balance_never_stored_witness:
  "no_balance [alice_doc, bob_doc] \<and>
   no_balance (snd (POST ''65a1b2c3d4e5f60718293a04'' 5 6 dave_body [alice_doc, bob_doc])) \<and>
   length (snd (POST ''65a1b2c3d4e5f60718293a04'' 5 6 dave_body [alice_doc, bob_doc])) = 3 \<and>
   no_balance (snd (PUT ''65a1b2c3d4e5f60718293a01'' 6 dave_body [alice_doc, bob_doc])) \<and>
   no_balance (snd (DELETE ''65a1b2c3d4e5f60718293a01'' [alice_doc, bob_doc])) \<and>
   balances (GET sample_num_str sample_date_str
     [alice_doc\<lparr>entry_doc := (entry_doc alice_doc)(''balance'' \<mapsto> Prim (Num (Fin 7)))\<rparr>])
     = [Prim (Num (Fin 100))]"
proof -
  have n: "no_balance [alice_doc, bob_doc]"
    by (simp add: no_balance_def alice_doc_def bob_doc_def)
  note t = balance_never_stored [of 5 6 dave_body "[alice_doc, bob_doc]"
      "''65a1b2c3d4e5f60718293a04''" "''65a1b2c3d4e5f60718293a01''"
      sample_num_str sample_date_str "\<lambda>e. Some (Prim (Num (Fin 7)))" "[alice_doc]"]
  from t n have
    "no_balance (snd (POST ''65a1b2c3d4e5f60718293a04'' 5 6 dave_body [alice_doc, bob_doc]))"
    "no_balance (snd (PUT ''65a1b2c3d4e5f60718293a01'' 6 dave_body [alice_doc, bob_doc]))"
    "no_balance (snd (DELETE ''65a1b2c3d4e5f60718293a01'' [alice_doc, bob_doc]))"
    by blast+
  moreover have
    "length (snd (POST ''65a1b2c3d4e5f60718293a04'' 5 6 dave_body [alice_doc, bob_doc])) = 3"
    by (simp add: POST_def dave_body_def member_def Let_def)
  moreover have "balances (GET sample_num_str sample_date_str [alice_doc]) = [Prim (Num (Fin 100))]"
    by (simp add: balances_def GET_def processed_def field_def alice_doc_def js_minus_def
        num_sub_def round64_samples)
  with t have "balances (GET sample_num_str sample_date_str
     [alice_doc\<lparr>entry_doc := (entry_doc alice_doc)(''balance'' \<mapsto> Prim (Num (Fin 7)))\<rparr>])
     = [Prim (Num (Fin 100))]"
    by simp
  ultimately show ?thesis
    using n by simp
qed

section \<open>Searching\<close>

lemma filter_if: "(if c then filter P xs else xs) = filter (\<lambda>x. c \<longrightarrow> P x) xs"
  by simp

lemma handleSearch_filtered:
  "filteredEntries (handleSearch st)
     = filter (\<lambda>entry.
         (filter_particulars (exportFilters st) \<noteq> [] \<longrightarrow>
            includes_str (toLowerCase (particulars entry))
              (toLowerCase (filter_particulars (exportFilters st)))) \<and>
         (startDate (exportFilters st) \<noteq> [] \<longrightarrow>
            str_ge (date entry) (startDate (exportFilters st))) \<and>
         (endDate (exportFilters st) \<noteq> [] \<longrightarrow>
            str_le (date entry) (endDate (exportFilters st))))
       (entries st)"
  unfolding handleSearch_def Let_def filter_if by (simp add: conj_commute conj_left_commute cong: conj_cong)

text \<open>
  C4. For every entry list and every filter (a text query and two dates, each absent when
  empty), searching gives the entries that satisfy every criterion that is present, in
  their order: a subsequence of the list, and a sub-multiset as to the ids. A criterion
  that is absent excludes nothing. The list of entries and the filter are left as they
  were.
\<close>

theorem handleSearch_subsequence:
  "filteredEntries (handleSearch st)
     = filter (\<lambda>entry.
         (filter_particulars (exportFilters st) \<noteq> [] \<longrightarrow>
            includes_str (toLowerCase (particulars entry))
              (toLowerCase (filter_particulars (exportFilters st)))) \<and>
         (startDate (exportFilters st) \<noteq> [] \<longrightarrow>
            str_ge (date entry) (startDate (exportFilters st))) \<and>
         (endDate (exportFilters st) \<noteq> [] \<longrightarrow>
            str_le (date entry) (endDate (exportFilters st))))
       (entries st) \<and>
   subseq (filteredEntries (handleSearch st)) (entries st) \<and>
   mset (map entry_id (filteredEntries (handleSearch st))) \<subseteq># mset (map entry_id (entries st)) \<and>
   entries (handleSearch st) = entries st \<and>
   exportFilters (handleSearch st) = exportFilters st"
proof -
  note f = handleSearch_filtered [of st]
  have "subseq (filteredEntries (handleSearch st)) (entries st)"
    unfolding f by (rule subseq_filter_left)
  moreover have
    "mset (map entry_id (filteredEntries (handleSearch st))) \<subseteq># mset (map entry_id (entries st))"
    unfolding f by (simp add: image_mset_subseteq_mono)
  moreover have "entries (handleSearch st) = entries st"
    "exportFilters (handleSearch st) = exportFilters st"
    by (simp_all add: handleSearch_def Let_def)
  ultimately show ?thesis
    using f by simp
qed

text \<open>
  The scenario: from 2 January on, only Bob's entry. And a text query with an end date.
\<close>

theorem handleSearch_subsequence_witness:
  "filteredEntries (handleSearch (searching [alice, bob] [] ''2024-01-02'' [])) = [bob] \<and>
   entries (handleSearch (searching [alice, bob] [] ''2024-01-02'' [])) = [alice, bob] \<and>
   filteredEntries (handleSearch (searching [alice, bob, carol_smith] ''aL'' [] ''2024-01-02''))
     = [alice]"
proof -
  note t = handleSearch_subsequence [of "searching [alice, bob] [] ''2024-01-02'' []"]
    and u = handleSearch_subsequence [of "searching [alice, bob, carol_smith] ''aL'' [] ''2024-01-02''"]
  have "filteredEntries (handleSearch (searching [alice, bob] [] ''2024-01-02'' [])) = [bob]"
    using t by (simp add: searching_def alice_def bob_def str_ge_def)
  moreover have "entries (handleSearch (searching [alice, bob] [] ''2024-01-02'' [])) = [alice, bob]"
    using t by (simp add: searching_def)
  moreover have
    "filteredEntries (handleSearch (searching [alice, bob, carol_smith] ''aL'' [] ''2024-01-02''))
       = [alice]"
    using u
    by (simp add: searching_def alice_def bob_def carol_smith_def str_le_def toLowerCase_def
        lower_char_def)
  ultimately show ?thesis by simp
qed

section \<open>The text criterion\<close>

lemma take_prefix: "take (length q) s = q \<longleftrightarrow> prefix q s"
  by (auto simp: prefix_def) (metis append_take_drop_id)

lemma includes_str_sublist: "includes_str s q \<longleftrightarrow> sublist q s"
proof (induction s)
  case Nil
  then show ?case by simp
next
  case (Cons c cs)
  have "includes_str (c # cs) q \<longleftrightarrow> prefix q (c # cs) \<or> includes_str cs q"
    using take_prefix [of q "c # cs"] by simp
  with Cons.IH show ?case
    by (simp add: sublist_Cons_right)
qed

text \<open>
  C5, as amended. The text criterion applies when the query is not empty; the query is not
  trimmed. When it applies, it keeps, of the entries that pass the date criteria, those
  whose particulars in lower case contain the query in lower case as a substring. With an
  empty query and no dates every entry is included. A query of white space is applied as
  it is written.
\<close>

theorem text_criterion:
  "filteredEntries (handleSearch st)
     = filter (\<lambda>entry.
         filter_particulars (exportFilters st) = []
         \<or> sublist (toLowerCase (filter_particulars (exportFilters st)))
              (toLowerCase (particulars entry)))
       (filteredEntries
          (handleSearch (st\<lparr>exportFilters := (exportFilters st)\<lparr>filter_particulars := []\<rparr>\<rparr>))) \<and>
   (filter_particulars (exportFilters st) = [] \<and> startDate (exportFilters st) = []
    \<and> endDate (exportFilters st) = [] \<longrightarrow> filteredEntries (handleSearch st) = entries st)"
proof -
  have "filteredEntries (handleSearch st)
     = filter (\<lambda>entry.
         filter_particulars (exportFilters st) = []
         \<or> sublist (toLowerCase (filter_particulars (exportFilters st)))
              (toLowerCase (particulars entry)))
       (filteredEntries
          (handleSearch (st\<lparr>exportFilters := (exportFilters st)\<lparr>filter_particulars := []\<rparr>\<rparr>)))"
    by (auto simp: handleSearch_filtered includes_str_sublist intro: filter_cong)
  moreover have "filteredEntries (handleSearch st) = entries st"
    if "filter_particulars (exportFilters st) = [] \<and> startDate (exportFilters st) = []
        \<and> endDate (exportFilters st) = []"
    using that by (simp add: handleSearch_filtered)
  ultimately show ?thesis by blast
qed

theorem text_criterion_witness:
  "filteredEntries (handleSearch (searching [alice, bob, carol_smith] ''aL'' [] [])) = [alice] \<and>
   filteredEntries (handleSearch (searching [alice, bob, carol_smith] [] [] []))
     = [alice, bob, carol_smith]"
proof -
  note t = text_criterion [of "searching [alice, bob, carol_smith] ''aL'' [] []"]
    and u = text_criterion [of "searching [alice, bob, carol_smith] [] [] []"]
  have 1: "filteredEntries (handleSearch (searching [alice, bob, carol_smith] [] [] []))
             = [alice, bob, carol_smith]"
    using u by (simp add: searching_def)
  have s: "sublist ''al'' ''alice''" "\<not> sublist ''al'' ''bob''" "\<not> sublist ''al'' ''carol smith''"
    by (simp_all add: includes_str_sublist [symmetric])
  have l: "toLowerCase ''aL'' = ''al''" "toLowerCase ''Alice'' = ''alice''"
    "toLowerCase ''Bob'' = ''bob''" "toLowerCase ''Carol Smith'' = ''carol smith''"
    by (simp_all add: toLowerCase_def lower_char_def)
  have "filteredEntries (handleSearch (searching [alice, bob, carol_smith] ''aL'' [] [])) = [alice]"
    using t 1 by (simp add: searching_def s l alice_def bob_def carol_smith_def)
  with 1 show ?thesis by simp
qed

text \<open>
  A query of one space is empty after trimming, and yet it drops Alice's entry and keeps
  the entry whose particulars hold a space.
\<close>

theorem whitespace_query_counterexample:
  "trim '' '' = [] \<and>
   filteredEntries (handleSearch (searching [alice, carol_smith] '' '' [] [])) = [carol_smith]"
  by (simp add: trim_def is_ws_def handleSearch_def searching_def alice_def carol_smith_def
      toLowerCase_def lower_char_def)

section \<open>Exporting\<close>

lemma join_element_or_dash: "join_element ns (or_dash v) = amount_text ns v"
  by (cases v rule: truthy.cases) (simp_all add: or_dash_def js_or_def amount_text_def)

lemma to_string_or_dash: "to_string ns (or_dash v) = amount_text ns v"
  by (simp add: or_dash_def js_or_def amount_text_def)

lemma join_strings_terminated:
  "xs \<noteq> [] \<Longrightarrow> join_strings sep xs @ sep = concat (map (\<lambda>x. x @ sep) xs)"
  by (induction sep xs rule: join_strings.induct) simp_all

lemma foldl_append_concat: "foldl (\<lambda>m e. m @ f e) a xs = a @ concat (map f xs)"
  by (induction xs arbitrary: a) simp_all

lemma csv_header_line:
  "join ns '','' csv_header
     = ''Date,Particulars,Debit Country,Debit (Out),Credit Country,Credit (In),Balance''"
  by (simp add: join_def csv_header_def)

lemma csv_row_line:
  "join ns '','' (csv_row entry)
     = date entry @ '','' @ particulars entry @ '',''
       @ join_element ns (or_dash (debitCountry entry)) @ '',''
       @ join_element ns (or_dash (debit entry)) @ '',''
       @ join_element ns (or_dash (creditCountry entry)) @ '',''
       @ join_element ns (or_dash (credit entry)) @ '',''
       @ join_element ns (balance entry)"
  by (simp add: join_def csv_row_def)

lemma csvContent_lines:
  "csvContent ns es @ [CHR 0x0A]
     = concat (map (\<lambda>line. line @ [CHR 0x0A])
         (join ns '','' csv_header # map (\<lambda>entry. join ns '','' (csv_row entry)) es))"
  unfolding csvContent_def
  by (subst join_strings_terminated) (simp_all add: comp_def)

lemma message_lines:
  "message ns es
     = ''Account Statement:'' @ [CHR 0x0A, CHR 0x0A] @ concat (map (share_entry ns) es)"
  by (simp add: message_def foldl_append_concat)

text \<open>
  C7. In both output modes every entry that is exported has its four amounts written by
  the same rule: an amount that is zero or falsy gives the placeholder \<open>-\<close>, never \<open>0\<close>.
  The CSV text is the header line and then one line per entry, the cells joined by commas
  and the amounts in the cells 2 to 5; the shared text is the heading and then one line per
  entry with the amounts after their labels.
\<close>

theorem amounts_placeholder:
  "exportToCSV ns st @ [CHR 0x0A]
     = concat (map (\<lambda>line. line @ [CHR 0x0A])
         (''Date,Particulars,Debit Country,Debit (Out),Credit Country,Credit (In),Balance'' #
          map (\<lambda>entry.
                 date entry @ '','' @ particulars entry @ '',''
                 @ amount_text ns (debitCountry entry) @ '',''
                 @ amount_text ns (debit entry) @ '',''
                 @ amount_text ns (creditCountry entry) @ '',''
                 @ amount_text ns (credit entry) @ '',''
                 @ join_element ns (balance entry))
            (if filteredEntries st = [] then entries st else filteredEntries st))) \<and>
   shareViaWhatsApp ns st
     = ''Account Statement:'' @ [CHR 0x0A, CHR 0x0A]
       @ concat (map (\<lambda>entry.
                 date entry @ '' | '' @ particulars entry
                 @ '' | Debit Country: '' @ amount_text ns (debitCountry entry)
                 @ '' | Debit: '' @ amount_text ns (debit entry)
                 @ '' | Credit Country: '' @ amount_text ns (creditCountry entry)
                 @ '' | Credit: '' @ amount_text ns (credit entry)
                 @ '' | Balance: '' @ to_string ns (balance entry) @ [CHR 0x0A])
            (if filteredEntries st = [] then entries st else filteredEntries st)) \<and>
   (\<not> truthy v \<longrightarrow> amount_text ns v = ''-'' \<and> amount_text ns v \<noteq> ''0'')"
proof (intro conjI)
  show "exportToCSV ns st @ [CHR 0x0A]
     = concat (map (\<lambda>line. line @ [CHR 0x0A])
         (''Date,Particulars,Debit Country,Debit (Out),Credit Country,Credit (In),Balance'' #
          map (\<lambda>entry.
                 date entry @ '','' @ particulars entry @ '',''
                 @ amount_text ns (debitCountry entry) @ '',''
                 @ amount_text ns (debit entry) @ '',''
                 @ amount_text ns (creditCountry entry) @ '',''
                 @ amount_text ns (credit entry) @ '',''
                 @ join_element ns (balance entry))
            (if filteredEntries st = [] then entries st else filteredEntries st)))"
    unfolding exportToCSV_def csvContent_lines csv_header_line csv_row_line
      join_element_or_dash
    by simp
  show "shareViaWhatsApp ns st
     = ''Account Statement:'' @ [CHR 0x0A, CHR 0x0A]
       @ concat (map (\<lambda>entry.
                 date entry @ '' | '' @ particulars entry
                 @ '' | Debit Country: '' @ amount_text ns (debitCountry entry)
                 @ '' | Debit: '' @ amount_text ns (debit entry)
                 @ '' | Credit Country: '' @ amount_text ns (creditCountry entry)
                 @ '' | Credit: '' @ amount_text ns (credit entry)
                 @ '' | Balance: '' @ to_string ns (balance entry) @ [CHR 0x0A])
            (if filteredEntries st = [] then entries st else filteredEntries st))"
    unfolding shareViaWhatsApp_def message_lines share_entry_def share_line_def
      to_string_or_dash
    by simp
  show "\<not> truthy v \<longrightarrow> amount_text ns v = ''-'' \<and> amount_text ns v \<noteq> ''0''"
    by (simp add: amount_text_def)
qed

text \<open>The two entries of the scenario, exported in both modes.\<close>

theorem amounts_placeholder_witness:
  "\<not> truthy (debit alice) \<and> \<not> truthy (debitCountry alice) \<and> \<not> truthy (creditCountry alice) \<and>
   \<not> truthy (credit bob) \<and>
   exportToCSV sample_num_str (searching [alice, bob] [] [] [])
     = ''Date,Particulars,Debit Country,Debit (Out),Credit Country,Credit (In),Balance''
       @ [CHR 0x0A] @ ''2024-01-01,Alice,-,-,-,100,100''
       @ [CHR 0x0A] @ ''2024-01-02,Bob,-,40,-,-,60'' \<and>
   shareViaWhatsApp sample_num_str (searching [alice, bob] [] [] [])
     = ''Account Statement:'' @ [CHR 0x0A, CHR 0x0A]
       @ ''2024-01-01 | Alice | Debit Country: - | Debit: - | Credit Country: - | Credit: 100 | Balance: 100''
       @ [CHR 0x0A]
       @ ''2024-01-02 | Bob | Debit Country: - | Debit: 40 | Credit Country: - | Credit: - | Balance: 60''
       @ [CHR 0x0A] \<and>
   amount_text sample_num_str (Num (Fin 0)) = ''-'' \<and>
   amount_text sample_num_str (Num NaN) = ''-'' \<and>
   amount_text sample_num_str Null = ''-'' \<and>
   amount_text sample_num_str Undefined = ''-'' \<and>
   amount_text sample_num_str (Str []) = ''-''"
proof -
  have f: "\<not> truthy (debit alice)" "\<not> truthy (debitCountry alice)"
    "\<not> truthy (creditCountry alice)" "\<not> truthy (credit bob)"
    "\<not> truthy (debitCountry bob)" "\<not> truthy (creditCountry bob)"
    by (simp_all add: alice_def bob_def)
  note t = amounts_placeholder [of sample_num_str "searching [alice, bob] [] [] []"]
  have d: "amount_text sample_num_str (debit alice) = ''-''"
    "amount_text sample_num_str (debitCountry alice) = ''-''"
    "amount_text sample_num_str (creditCountry alice) = ''-''"
    "amount_text sample_num_str (credit bob) = ''-''"
    "amount_text sample_num_str (debitCountry bob) = ''-''"
    "amount_text sample_num_str (creditCountry bob) = ''-''"
    using t [of "debit alice"] t [of "debitCountry alice"] t [of "creditCountry alice"]
      t [of "credit bob"] t [of "debitCountry bob"] t [of "creditCountry bob"] f
    by blast+
  have c: "amount_text sample_num_str (credit alice) = ''100''"
    "join_element sample_num_str (balance alice) = ''100''"
    "to_string sample_num_str (balance alice) = ''100''"
    "amount_text sample_num_str (debit bob) = ''40''"
    "join_element sample_num_str (balance bob) = ''60''"
    "to_string sample_num_str (balance bob) = ''60''"
    by (simp_all add: alice_def bob_def amount_text_def)
  have s: "date alice = ''2024-01-01''" "particulars alice = ''Alice''"
    "date bob = ''2024-01-02''" "particulars bob = ''Bob''"
    by (simp_all add: alice_def bob_def)
  have "exportToCSV sample_num_str (searching [alice, bob] [] [] []) @ [CHR 0x0A]
     = (''Date,Particulars,Debit Country,Debit (Out),Credit Country,Credit (In),Balance''
       @ [CHR 0x0A] @ ''2024-01-01,Alice,-,-,-,100,100''
       @ [CHR 0x0A] @ ''2024-01-02,Bob,-,40,-,-,60'') @ [CHR 0x0A]"
    using t [of Null] by (simp add: searching_def d c s)
  then have "exportToCSV sample_num_str (searching [alice, bob] [] [] [])
     = ''Date,Particulars,Debit Country,Debit (Out),Credit Country,Credit (In),Balance''
       @ [CHR 0x0A] @ ''2024-01-01,Alice,-,-,-,100,100''
       @ [CHR 0x0A] @ ''2024-01-02,Bob,-,40,-,-,60''"
    by (simp only: append_same_eq)
  moreover have "shareViaWhatsApp sample_num_str (searching [alice, bob] [] [] [])
     = ''Account Statement:'' @ [CHR 0x0A, CHR 0x0A]
       @ ''2024-01-01 | Alice | Debit Country: - | Debit: - | Credit Country: - | Credit: 100 | Balance: 100''
       @ [CHR 0x0A]
       @ ''2024-01-02 | Bob | Debit Country: - | Debit: 40 | Credit Country: - | Credit: - | Balance: 60''
       @ [CHR 0x0A]"
    using t [of Null] by (simp add: searching_def d c s)
  moreover have "amount_text sample_num_str (Num (Fin 0)) = ''-''"
    "amount_text sample_num_str (Num NaN) = ''-''"
    "amount_text sample_num_str Null = ''-''"
    "amount_text sample_num_str Undefined = ''-''"
    "amount_text sample_num_str (Str []) = ''-''"
    using t [of "Num (Fin 0)"] t [of "Num NaN"] t [of Null] t [of Undefined] t [of "Str []"]
    by simp_all
  ultimately show ?thesis
    using f by simp
qed

lemma csv_row_rest:
  "join ns '','' (csv_row entry) = date entry @ '','' @ join ns '','' (tl (csv_row entry))"
  by (simp add: join_def csv_row_def)

text \<open>
  C9, as amended. In both output modes the date of every entry that is exported is written
  as the stored string, unchanged: it opens the line of the entry in the CSV text and in
  the shared text. No locale format is applied there.
\<close>

theorem export_date_as_stored:
  "exportToCSV ns st @ [CHR 0x0A]
     = concat (map (\<lambda>line. line @ [CHR 0x0A])
         (''Date,Particulars,Debit Country,Debit (Out),Credit Country,Credit (In),Balance'' #
          map (\<lambda>entry. date entry @ '','' @ join ns '','' (tl (csv_row entry)))
            (if filteredEntries st = [] then entries st else filteredEntries st))) \<and>
   shareViaWhatsApp ns st
     = ''Account Statement:'' @ [CHR 0x0A, CHR 0x0A]
       @ concat (map (\<lambda>entry.
                 date entry @ '' | '' @ particulars entry
                 @ '' | Debit Country: '' @ to_string ns (or_dash (debitCountry entry))
                 @ '' | Debit: '' @ to_string ns (or_dash (debit entry))
                 @ '' | Credit Country: '' @ to_string ns (or_dash (creditCountry entry))
                 @ '' | Credit: '' @ to_string ns (or_dash (credit entry))
                 @ '' | Balance: '' @ to_string ns (balance entry) @ [CHR 0x0A])
            (if filteredEntries st = [] then entries st else filteredEntries st))"
proof (intro conjI)
  show "exportToCSV ns st @ [CHR 0x0A]
     = concat (map (\<lambda>line. line @ [CHR 0x0A])
         (''Date,Particulars,Debit Country,Debit (Out),Credit Country,Credit (In),Balance'' #
          map (\<lambda>entry. date entry @ '','' @ join ns '','' (tl (csv_row entry)))
            (if filteredEntries st = [] then entries st else filteredEntries st)))"
    unfolding exportToCSV_def csvContent_lines csv_header_line csv_row_rest
    by simp
  show "shareViaWhatsApp ns st
     = ''Account Statement:'' @ [CHR 0x0A, CHR 0x0A]
       @ concat (map (\<lambda>entry.
                 date entry @ '' | '' @ particulars entry
                 @ '' | Debit Country: '' @ to_string ns (or_dash (debitCountry entry))
                 @ '' | Debit: '' @ to_string ns (or_dash (debit entry))
                 @ '' | Credit Country: '' @ to_string ns (or_dash (creditCountry entry))
                 @ '' | Credit: '' @ to_string ns (or_dash (credit entry))
                 @ '' | Balance: '' @ to_string ns (balance entry) @ [CHR 0x0A])
            (if filteredEntries st = [] then entries st else filteredEntries st))"
    unfolding shareViaWhatsApp_def message_lines share_entry_def share_line_def
    by simp
qed

text \<open>
  The entry of 1 January 2024 goes out with the stored string \<open>2024-01-01\<close> as its date,
  in the CSV text and in the shared text.
\<close>

theorem export_date_counterexample:
  "date alice = ''2024-01-01'' \<and>
   exportToCSV sample_num_str (searching [alice] [] [] [])
     = ''Date,Particulars,Debit Country,Debit (Out),Credit Country,Credit (In),Balance''
       @ [CHR 0x0A] @ ''2024-01-01,Alice,-,-,-,100,100'' \<and>
   shareViaWhatsApp sample_num_str (searching [alice] [] [] [])
     = ''Account Statement:'' @ [CHR 0x0A, CHR 0x0A]
       @ ''2024-01-01 | Alice | Debit Country: - | Debit: - | Credit Country: - | Credit: 100 | Balance: 100''
       @ [CHR 0x0A]"
  by (simp add: alice_def searching_def exportToCSV_def csvContent_def csv_header_def
      csv_row_def join_def or_dash_def js_or_def shareViaWhatsApp_def message_def
      share_entry_def share_line_def)

lemma handleSearch_entries [simp]: "entries (handleSearch st) = entries st"
  by (simp add: handleSearch_def Let_def)

text \<open>
  C10. When no entry is filtered, the two exports format the whole list of entries. So
  after a search that matches nothing, they export every entry.
\<close>

theorem export_fallback:
  "(filteredEntries st = [] \<longrightarrow>
      exportToCSV ns st = csvContent ns (entries st) \<and>
      shareViaWhatsApp ns st = message ns (entries st)) \<and>
   (filteredEntries st \<noteq> [] \<longrightarrow>
      exportToCSV ns st = csvContent ns (filteredEntries st) \<and>
      shareViaWhatsApp ns st = message ns (filteredEntries st)) \<and>
   (filteredEntries (handleSearch st) = [] \<longrightarrow>
      exportToCSV ns (handleSearch st) = csvContent ns (entries st) \<and>
      shareViaWhatsApp ns (handleSearch st) = message ns (entries st))"
  by (simp add: exportToCSV_def shareViaWhatsApp_def)

theorem export_fallback_witness:
  "filteredEntries (handleSearch (searching [alice, bob] ''zed'' [] [])) = [] \<and>
   exportToCSV sample_num_str (handleSearch (searching [alice, bob] ''zed'' [] []))
     = ''Date,Particulars,Debit Country,Debit (Out),Credit Country,Credit (In),Balance''
       @ [CHR 0x0A] @ ''2024-01-01,Alice,-,-,-,100,100''
       @ [CHR 0x0A] @ ''2024-01-02,Bob,-,40,-,-,60'' \<and>
   shareViaWhatsApp sample_num_str (handleSearch (searching [alice, bob] ''zed'' [] []))
     = ''Account Statement:'' @ [CHR 0x0A, CHR 0x0A]
       @ ''2024-01-01 | Alice | Debit Country: - | Debit: - | Credit Country: - | Credit: 100 | Balance: 100''
       @ [CHR 0x0A]
       @ ''2024-01-02 | Bob | Debit Country: - | Debit: 40 | Credit Country: - | Credit: - | Balance: 60''
       @ [CHR 0x0A]"
proof -
  have e: "filteredEntries (handleSearch (searching [alice, bob] ''zed'' [] [])) = []"
    by (simp add: handleSearch_def searching_def alice_def bob_def toLowerCase_def
        lower_char_def)
  have n: "entries (searching [alice, bob] ''zed'' [] []) = [alice, bob]"
    by (simp add: searching_def)
  note t = export_fallback [of "searching [alice, bob] ''zed'' [] []" sample_num_str]
  from t e n have
    x: "exportToCSV sample_num_str (handleSearch (searching [alice, bob] ''zed'' [] []))
          = csvContent sample_num_str [alice, bob]"
    and y: "shareViaWhatsApp sample_num_str (handleSearch (searching [alice, bob] ''zed'' [] []))
          = message sample_num_str [alice, bob]"
    by simp_all
  have "csvContent sample_num_str [alice, bob]
     = ''Date,Particulars,Debit Country,Debit (Out),Credit Country,Credit (In),Balance''
       @ [CHR 0x0A] @ ''2024-01-01,Alice,-,-,-,100,100''
       @ [CHR 0x0A] @ ''2024-01-02,Bob,-,40,-,-,60''"
    by (simp add: csvContent_def csv_header_def csv_row_def join_def or_dash_def js_or_def
        alice_def bob_def)
  moreover have "message sample_num_str [alice, bob]
     = ''Account Statement:'' @ [CHR 0x0A, CHR 0x0A]
       @ ''2024-01-01 | Alice | Debit Country: - | Debit: - | Credit Country: - | Credit: 100 | Balance: 100''
       @ [CHR 0x0A]
       @ ''2024-01-02 | Bob | Debit Country: - | Debit: 40 | Credit Country: - | Credit: - | Balance: 60''
       @ [CHR 0x0A]"
    by (simp add: message_def share_entry_def share_line_def or_dash_def js_or_def
        alice_def bob_def)
  ultimately show ?thesis
    using e x y by simp
qed

end
